theory Spec2Isabelle
  imports Main
begin

section \<open>The BrainDriveChat plugin lifecycle manager\<close>

text \<open>
  A shallow embedding of \<^verbatim>\<open>lifecycle_manager.py\<close>: the record store (lookup, insert and
  delete of plugin and module rows through a database session), the minimal base class
  with its \<^verbatim>\<open>active_users\<close> guard, the three module-level compatibility functions,
  the installation validator, the health inspector and the file synchronizer.

  Python names that start with an underscore lose it (\<^verbatim>\<open>_check_existing_plugin\<close> is
  \<open>check_existing_plugin\<close>). The values of the timestamps (\<^verbatim>\<open>created_at\<close>, \<^verbatim>\<open>updated_at\<close>,
  \<^verbatim>\<open>last_used\<close>) and the descriptor columns that are written once and never read by any
  function of the file are left out of the rows; logging calls have no effect on any
  returned value and are left out as well, except for the warning of the file synchronizer.
\<close>

subsection \<open>Exceptions and result dictionaries\<close>

datatype exn =
    DatabaseError | KeyError | AttributeError | JSONDecodeError | UnicodeDecodeError
  | FileNotFoundError | OSError | TypeError

text \<open>\<^verbatim>\<open>str(e)\<close>: the message of an exception, here its name.\<close>

fun str :: "exn \<Rightarrow> string" where
  "str DatabaseError = ''DatabaseError''"
| "str KeyError = ''KeyError''"
| "str AttributeError = ''AttributeError''"
| "str JSONDecodeError = ''JSONDecodeError''"
| "str UnicodeDecodeError = ''UnicodeDecodeError''"
| "str FileNotFoundError = ''FileNotFoundError''"
| "str OSError = ''OSError''"
| "str TypeError = ''TypeError''"

text \<open>An entry of \<^verbatim>\<open>modules_created\<close> or \<^verbatim>\<open>deleted_modules\<close>.\<close>

record module_ref =
  ref_id :: nat
  ref_name :: string
  ref_display_name :: "string option"

text \<open>
  The dictionary returned by the install and uninstall paths. A key that the dictionary
  does not hold is \<open>None\<close>.
\<close>

record result =
  success :: bool
  error :: "string option"
  plugin_id :: "nat option"
  plugin_slug :: "string option"
  plugin_name :: "string option"
  modules_created :: "module_ref list option"
  deleted_modules :: "module_ref list option"

definition failure :: "string \<Rightarrow> result" where
  "failure msg = \<lparr>success = False, error = Some msg, plugin_id = None, plugin_slug = None,
     plugin_name = None, modules_created = None, deleted_modules = None\<rparr>"

subsection \<open>Descriptors and the manager\<close>

record plugin_descriptor =
  pd_name :: string
  pd_version :: string
  pd_plugin_slug :: string

record module_descriptor =
  md_name :: string
  md_display_name :: string

record manager =
  plugin_data :: plugin_descriptor
  module_data :: "module_descriptor list"
  active_users :: "string set"

text \<open>\<^verbatim>\<open>BrainDriveChatLifecycleManager(plugins_base_dir)\<close>: a fresh manager, no active user.\<close>

definition BrainDriveChatLifecycleManager :: manager where
  "BrainDriveChatLifecycleManager =
     \<lparr>plugin_data = \<lparr>pd_name = ''BrainDriveChat'', pd_version = ''1.0.0'',
                      pd_plugin_slug = ''BrainDriveChat''\<rparr>,
      module_data = [\<lparr>md_name = ''BrainDriveChat'', md_display_name = ''AI Chat Interface''\<rparr>],
      active_users = {}\<rparr>"

subsection \<open>The global name \<^verbatim>\<open>datetime\<close>\<close>

text \<open>
  Line 11 binds the global name \<^verbatim>\<open>datetime\<close> to the module. The branch of the
  import logic that defines the minimal base class runs \<^verbatim>\<open>from datetime import datetime\<close>
  at module level (line 46) and so rebinds the name to the class; when the base class is
  imported from the BrainDrive backend (line 26 or line 39), line 46 does not run and the
  name stays bound to the module. The methods of
  \<^verbatim>\<open>BrainDriveChatLifecycleManager\<close> read the name when they run, so they take the
  binding as a parameter; the minimal base class exists under the second binding only.
\<close>

datatype binding = DatetimeModule | DatetimeClass

subsection \<open>The database session\<close>

text \<open>
  The session is the caller's, and the engine behind it is not part of the repository.
  It is modelled as two tables in the session's view, the tables as last committed, the
  next identifier the engine hands out for each table, and a script \<open>faults\<close> of what
  the engine does with each coming \<^verbatim>\<open>execute\<close>, \<^verbatim>\<open>commit\<close> or
  \<^verbatim>\<open>rollback\<close>: \<open>True\<close> raises. An empty script raises nothing. A theorem that says
  nothing about the script holds for every script, so also for an engine that enforces
  constraints of its own. The trace records each call with its outcome.
\<close>

record plugin_row =
  p_id :: nat
  p_user_id :: string
  p_name :: string
  p_version :: string
  p_enabled :: bool
  p_plugin_slug :: string

record module_row =
  m_id :: nat
  m_plugin_id :: nat
  m_name :: string
  m_display_name :: string

datatype stmt =
    SelectCount
  | SelectPlugin string string
  | InsertPlugin string string
  | InsertModule nat string
  | SelectModules nat
  | DeleteModules nat
  | DeletePlugin nat string
  | Commit
  | Rollback

datatype event = Done stmt | Raised stmt

record db =
  plugin_tbl :: "plugin_row list"
  module_tbl :: "module_row list"
  committed_plugin :: "plugin_row list"
  committed_module :: "module_row list"
  next_plugin_id :: nat
  next_module_id :: nat
  faults :: "bool list"
  trace :: "event list"

text \<open>
  A computation on a state \<open>'s\<close> returns a value or raises, and leaves a state behind in
  both cases.
\<close>

type_synonym ('s, 'a) comp = "'s \<Rightarrow> (exn + 'a) \<times> 's"

type_synonym 'a io = "(db, 'a) comp"

definition ret :: "'a \<Rightarrow> ('s, 'a) comp" where
  "ret x = (\<lambda>d. (Inr x, d))"

definition raise :: "exn \<Rightarrow> ('s, 'a) comp" where
  "raise e = (\<lambda>d. (Inl e, d))"

definition bind :: "('s, 'a) comp \<Rightarrow> ('a \<Rightarrow> ('s, 'b) comp) \<Rightarrow> ('s, 'b) comp" where
  "bind m f = (\<lambda>d. case m d of (Inl e, d') \<Rightarrow> (Inl e, d') | (Inr x, d') \<Rightarrow> f x d')"

text \<open>\<^verbatim>\<open>try: m except Exception as e: h e\<close>\<close>

definition try_except :: "('s, 'a) comp \<Rightarrow> (exn \<Rightarrow> ('s, 'a) comp) \<Rightarrow> ('s, 'a) comp" where
  "try_except m h = (\<lambda>d. case m d of (Inl e, d') \<Rightarrow> h e d' | (Inr x, d') \<Rightarrow> (Inr x, d'))"

definition raises :: "db \<Rightarrow> bool" where
  "raises d = (case faults d of [] \<Rightarrow> False | f # _ \<Rightarrow> f)"

definition advance :: "event \<Rightarrow> db \<Rightarrow> db" where
  "advance e d = d\<lparr>faults := tl (faults d), trace := trace d @ [e]\<rparr>"

text \<open>\<^verbatim>\<open>await db.execute(s, params)\<close> with the effect \<open>run\<close> of the statement.\<close>

definition execute :: "stmt \<Rightarrow> (db \<Rightarrow> 'a \<times> db) \<Rightarrow> 'a io" where
  "execute s run d =
     (if raises d then (Inl DatabaseError, advance (Raised s) d)
      else (case run (advance (Done s) d) of (x, d') \<Rightarrow> (Inr x, d')))"

definition matches :: "string \<Rightarrow> string \<Rightarrow> plugin_row \<Rightarrow> bool" where
  "matches user_id slug r = (p_user_id r = user_id \<and> p_plugin_slug r = slug)"

definition select_count :: "nat io" where
  "select_count = execute SelectCount (\<lambda>d. (length (plugin_tbl d), d))"

definition select_plugin :: "string \<Rightarrow> string \<Rightarrow> plugin_row list io" where
  "select_plugin user_id slug =
     execute (SelectPlugin user_id slug) (\<lambda>d. (filter (matches user_id slug) (plugin_tbl d), d))"

definition new_plugin_row :: "nat \<Rightarrow> string \<Rightarrow> plugin_descriptor \<Rightarrow> plugin_row" where
  "new_plugin_row i user_id pd =
     \<lparr>p_id = i, p_user_id = user_id, p_name = pd_name pd, p_version = pd_version pd,
      p_enabled = True, p_plugin_slug = pd_plugin_slug pd\<rparr>"

definition insert_plugin :: "string \<Rightarrow> plugin_descriptor \<Rightarrow> nat io" where
  "insert_plugin user_id pd =
     execute (InsertPlugin user_id (pd_plugin_slug pd))
       (\<lambda>d. (next_plugin_id d,
              d\<lparr>plugin_tbl := plugin_tbl d @ [new_plugin_row (next_plugin_id d) user_id pd],
                next_plugin_id := Suc (next_plugin_id d)\<rparr>))"

definition new_module_row :: "nat \<Rightarrow> nat \<Rightarrow> module_descriptor \<Rightarrow> module_row" where
  "new_module_row i pid md =
     \<lparr>m_id = i, m_plugin_id = pid, m_name = md_name md, m_display_name = md_display_name md\<rparr>"

definition insert_module :: "nat \<Rightarrow> module_descriptor \<Rightarrow> nat io" where
  "insert_module pid md =
     execute (InsertModule pid (md_name md))
       (\<lambda>d. (next_module_id d,
              d\<lparr>module_tbl := module_tbl d @ [new_module_row (next_module_id d) pid md],
                next_module_id := Suc (next_module_id d)\<rparr>))"

definition select_modules :: "nat \<Rightarrow> module_row list io" where
  "select_modules pid =
     execute (SelectModules pid) (\<lambda>d. (filter (\<lambda>r. m_plugin_id r = pid) (module_tbl d), d))"

definition delete_modules :: "nat \<Rightarrow> unit io" where
  "delete_modules pid =
     execute (DeleteModules pid)
       (\<lambda>d. ((), d\<lparr>module_tbl := filter (\<lambda>r. m_plugin_id r \<noteq> pid) (module_tbl d)\<rparr>))"

definition delete_plugin_row :: "nat \<Rightarrow> string \<Rightarrow> unit io" where
  "delete_plugin_row pid user_id =
     execute (DeletePlugin pid user_id)
       (\<lambda>d. ((), d\<lparr>plugin_tbl := filter (\<lambda>r. \<not> (p_id r = pid \<and> p_user_id r = user_id))
                                      (plugin_tbl d)\<rparr>))"

definition commit :: "unit io" where
  "commit =
     execute Commit
       (\<lambda>d. ((), d\<lparr>committed_plugin := plugin_tbl d, committed_module := module_tbl d\<rparr>))"

text \<open>
  \<^verbatim>\<open>await db.rollback()\<close>: the session's view falls back to what was committed, unless
  the call raises.
\<close>

definition rollback :: "unit io" where
  "rollback =
     execute Rollback
       (\<lambda>d. ((), d\<lparr>plugin_tbl := committed_plugin d, module_tbl := committed_module d\<rparr>))"

text \<open>
  \<^verbatim>\<open>now = datetime.datetime.now()\<close> (line 552): under the second binding
  \<^verbatim>\<open>datetime.datetime\<close> is an attribute that the class does not have.
\<close>

definition datetime_datetime_now :: "binding \<Rightarrow> unit io" where
  "datetime_datetime_now b =
     (case b of DatetimeModule \<Rightarrow> ret () | DatetimeClass \<Rightarrow> raise AttributeError)"

text \<open>\<^verbatim>\<open>result.fetchone()\<close>\<close>

definition fetchone :: "'a list \<Rightarrow> 'a option" where
  "fetchone rows = (case rows of [] \<Rightarrow> None | r # _ \<Rightarrow> Some r)"

subsection \<open>The record store\<close>

record existing =
  ex_exists :: bool
  ex_plugin_id :: "nat option"
  ex_plugin_info :: "plugin_row option"
  ex_error :: "string option"

definition check_existing_plugin :: "manager \<Rightarrow> string \<Rightarrow> existing io" where
  "check_existing_plugin self user_id =
     try_except
       (bind select_count (\<lambda>test_row.
        bind (select_plugin user_id (pd_plugin_slug (plugin_data self))) (\<lambda>rows.
        case fetchone rows of
          Some plugin_row \<Rightarrow>
            ret \<lparr>ex_exists = True, ex_plugin_id = Some (p_id plugin_row),
                 ex_plugin_info = Some plugin_row, ex_error = None\<rparr>
        | None \<Rightarrow>
            ret \<lparr>ex_exists = False, ex_plugin_id = None, ex_plugin_info = None,
                 ex_error = None\<rparr>)))
       (\<lambda>e. ret \<lparr>ex_exists = False, ex_plugin_id = None, ex_plugin_info = None,
                  ex_error = Some (str e)\<rparr>)"

fun insert_modules :: "nat \<Rightarrow> module_descriptor list \<Rightarrow> module_ref list \<Rightarrow> module_ref list io" where
  "insert_modules pid [] acc = ret acc"
| "insert_modules pid (module # rest) acc =
     bind (insert_module pid module) (\<lambda>module_id.
       insert_modules pid rest
         (acc @ [\<lparr>ref_id = module_id, ref_name = md_name module,
                  ref_display_name = Some (md_display_name module)\<rparr>]))"

text \<open>The \<^verbatim>\<open>try\<close> block of \<^verbatim>\<open>_create_database_records\<close>, then the function.\<close>

definition create_database_records_try :: "binding \<Rightarrow> manager \<Rightarrow> string \<Rightarrow> result io" where
  "create_database_records_try b self user_id =
     bind (datetime_datetime_now b) (\<lambda>now.
     bind (insert_plugin user_id (plugin_data self)) (\<lambda>pid.
     bind (insert_modules pid (module_data self) []) (\<lambda>created.
     bind commit (\<lambda>_.
     ret \<lparr>success = True, error = None, plugin_id = Some pid, plugin_slug = None,
          plugin_name = None, modules_created = Some created, deleted_modules = None\<rparr>))))"

definition create_database_records :: "binding \<Rightarrow> manager \<Rightarrow> string \<Rightarrow> result io" where
  "create_database_records b self user_id =
     try_except (create_database_records_try b self user_id)
       (\<lambda>e. bind rollback (\<lambda>_. ret (failure (str e))))"

text \<open>The \<^verbatim>\<open>try\<close> block of \<^verbatim>\<open>_delete_database_records\<close>, then the function.\<close>

definition delete_database_records_try :: "manager \<Rightarrow> string \<Rightarrow> nat \<Rightarrow> result io" where
  "delete_database_records_try self user_id pid =
     bind (select_modules pid) (\<lambda>rows.
     bind (delete_modules pid) (\<lambda>_.
     bind (delete_plugin_row pid user_id) (\<lambda>_.
     bind commit (\<lambda>_.
     ret \<lparr>success = True, error = None, plugin_id = None, plugin_slug = None,
          plugin_name = None, modules_created = None,
          deleted_modules =
            Some (map (\<lambda>row. \<lparr>ref_id = m_id row, ref_name = m_name row,
                                ref_display_name = None\<rparr>) rows)\<rparr>))))"

definition delete_database_records :: "manager \<Rightarrow> string \<Rightarrow> nat \<Rightarrow> result io" where
  "delete_database_records self user_id pid =
     try_except (delete_database_records_try self user_id pid)
       (\<lambda>e. bind rollback (\<lambda>_. ret (failure (str e))))"

text \<open>\<^verbatim>\<open>d[key]\<close> on a result dictionary: a missing key raises \<^verbatim>\<open>KeyError\<close>.\<close>

definition getitem :: "'a option \<Rightarrow> 'a io" where
  "getitem v = (case v of None \<Rightarrow> raise KeyError | Some x \<Rightarrow> ret x)"

definition perform_user_installation :: "binding \<Rightarrow> manager \<Rightarrow> string \<Rightarrow> result io" where
  "perform_user_installation b self user_id =
     try_except
       (bind (create_database_records b self user_id) (\<lambda>db_result.
        if \<not> success db_result then ret db_result
        else
          bind (getitem (plugin_id db_result)) (\<lambda>pid.
          bind (getitem (modules_created db_result)) (\<lambda>created.
          ret \<lparr>success = True, error = None, plugin_id = Some pid,
               plugin_slug = Some (pd_plugin_slug (plugin_data self)),
               plugin_name = Some (pd_name (plugin_data self)),
               modules_created = Some created, deleted_modules = None\<rparr>))))
       (\<lambda>e. ret (failure (str e)))"

definition perform_user_uninstallation :: "manager \<Rightarrow> string \<Rightarrow> result io" where
  "perform_user_uninstallation self user_id =
     try_except
       (bind (check_existing_plugin self user_id) (\<lambda>existing_check.
        if \<not> ex_exists existing_check then ret (failure ''Plugin not found for user'')
        else
          bind (getitem (ex_plugin_id existing_check)) (\<lambda>pid.
          bind (delete_database_records self user_id pid) (\<lambda>delete_result.
          if \<not> success delete_result then ret delete_result
          else
            bind (getitem (deleted_modules delete_result)) (\<lambda>deleted.
            ret \<lparr>success = True, error = None, plugin_id = Some pid, plugin_slug = None,
                 plugin_name = None, modules_created = None,
                 deleted_modules = Some deleted\<rparr>)))))
       (\<lambda>e. ret (failure (str e)))"

subsection \<open>The minimal base class and the compatibility functions\<close>

text \<open>
  \<^verbatim>\<open>install_for_user\<close> and \<^verbatim>\<open>uninstall_for_user\<close> read and update the manager's
  \<^verbatim>\<open>active_users\<close>, so they return the manager next to the session. They are the
  methods of lines 61 to 77, which are defined after line 46 has run: what they call runs
  with \<^verbatim>\<open>datetime\<close> bound to the class.
\<close>

definition install_for_user ::
  "manager \<Rightarrow> string \<Rightarrow> db \<Rightarrow> (exn + result) \<times> manager \<times> db" where
  "install_for_user self user_id d =
     (if user_id \<in> active_users self
      then (Inr (failure ''Plugin already installed for user''), self, d)
      else (case perform_user_installation DatetimeClass self user_id d of
              (Inl e, d') \<Rightarrow> (Inl e, self, d')
            | (Inr res, d') \<Rightarrow>
                (if success res
                 then (Inr res, self\<lparr>active_users := insert user_id (active_users self)\<rparr>, d')
                 else (Inr res, self, d'))))"

definition uninstall_for_user ::
  "manager \<Rightarrow> string \<Rightarrow> db \<Rightarrow> (exn + result) \<times> manager \<times> db" where
  "uninstall_for_user self user_id d =
     (if user_id \<notin> active_users self
      then (Inr (failure ''Plugin not installed for user''), self, d)
      else (case perform_user_uninstallation self user_id d of
              (Inl e, d') \<Rightarrow> (Inl e, self, d')
            | (Inr res, d') \<Rightarrow>
                (if success res
                 then (Inr res, self\<lparr>active_users := active_users self - {user_id}\<rparr>, d')
                 else (Inr res, self, d'))))"

text \<open>
  The three module-level functions build a new manager on every call and drop it; they are
  modelled with the minimal base class, the only base class of the repository.
\<close>

definition install_plugin :: "string \<Rightarrow> result io" where
  "install_plugin user_id d =
     (case install_for_user BrainDriveChatLifecycleManager user_id d of (r, _, d') \<Rightarrow> (r, d'))"

definition delete_plugin :: "string \<Rightarrow> result io" where
  "delete_plugin user_id d =
     (case uninstall_for_user BrainDriveChatLifecycleManager user_id d of (r, _, d') \<Rightarrow> (r, d'))"

definition get_plugin_status :: "string \<Rightarrow> existing io" where
  "get_plugin_status user_id = check_existing_plugin BrainDriveChatLifecycleManager user_id"


subsection \<open>Paths, files and JSON values\<close>

text \<open>
  A path is the list of its components (\<^verbatim>\<open>Path.parts\<close>), relative to the directory in
  question. A directory tree is the list of its entries. Of a file the code observes the
  size and what \<^verbatim>\<open>open\<close> followed by \<^verbatim>\<open>json.load\<close> gives: a JSON value or an
  exception.
\<close>

type_synonym path = "string list"

datatype json =
    JObject "(string \<times> json) list"
  | JArray "json list"
  | JString string
  | JNumber int
  | JBool bool
  | JNull

datatype node = File nat "exn + json" | Dir nat

type_synonym tree = "(path \<times> node) list"

definition name :: "path \<Rightarrow> string" where
  "name p = (if p = [] then [] else last p)"

definition startswith :: "string \<Rightarrow> string \<Rightarrow> bool" where
  "startswith s pre = (take (length pre) s = pre)"

definition endswith :: "string \<Rightarrow> string \<Rightarrow> bool" where
  "endswith s suf = (length suf \<le> length s \<and> drop (length s - length suf) s = suf)"

text \<open>\<^verbatim>\<open>sub in s\<close> on strings\<close>

fun contains :: "string \<Rightarrow> string \<Rightarrow> bool" where
  "contains [] sub = (sub = [])"
| "contains (c # cs) sub = (startswith (c # cs) sub \<or> contains cs sub)"

text \<open>
  \<^verbatim>\<open>key in value\<close> on what \<^verbatim>\<open>json.load\<close> returns: a key of a dict, an element
  of a list, a substring of a string, and \<^verbatim>\<open>TypeError\<close> on a number, a boolean or
  \<^verbatim>\<open>None\<close>.
\<close>

fun py_in :: "string \<Rightarrow> json \<Rightarrow> exn + bool" where
  "py_in k (JObject kvs) = Inr (k \<in> set (map fst kvs))"
| "py_in k (JArray vs) = Inr (JString k \<in> set vs)"
| "py_in k (JString s) = Inr (contains s k)"
| "py_in k (JNumber n) = Inl TypeError"
| "py_in k (JBool b) = Inl TypeError"
| "py_in k JNull = Inl TypeError"

definition path_exists :: "tree \<Rightarrow> path \<Rightarrow> bool" where
  "path_exists t p = (map_of t p \<noteq> None)"

definition is_dir :: "tree \<Rightarrow> path \<Rightarrow> bool" where
  "is_dir t p = (case map_of t p of Some (Dir _) \<Rightarrow> True | _ \<Rightarrow> False)"

text \<open>\<^verbatim>\<open>path.stat().st_size\<close>\<close>

definition st_size :: "tree \<Rightarrow> path \<Rightarrow> exn + nat" where
  "st_size t p =
     (case map_of t p of
        None \<Rightarrow> Inl FileNotFoundError
      | Some (File n _) \<Rightarrow> Inr n
      | Some (Dir n) \<Rightarrow> Inr n)"

text \<open>\<^verbatim>\<open>with open(path, 'r') as f: json.load(f)\<close>\<close>

definition json_load :: "tree \<Rightarrow> path \<Rightarrow> exn + json" where
  "json_load t p =
     (case map_of t p of
        None \<Rightarrow> Inl FileNotFoundError
      | Some (Dir _) \<Rightarrow> Inl OSError
      | Some (File _ c) \<Rightarrow> c)"

text \<open>
  \<^verbatim>\<open>dir.rglob('*sub*')\<close>: the entries below \<open>dir\<close> whose name contains \<open>sub\<close>.
\<close>

definition rglob :: "tree \<Rightarrow> path \<Rightarrow> string \<Rightarrow> path list" where
  "rglob t dir sub =
     filter (\<lambda>p. length dir < length p \<and> take (length dir) p = dir \<and> contains (name p) sub)
       (map fst t)"

fun join :: "string \<Rightarrow> string list \<Rightarrow> string" where
  "join sep [] = []"
| "join sep [x] = x"
| "join sep (x # y # ys) = x @ sep @ join sep (y # ys)"

subsection \<open>The installation validator\<close>

record validation =
  valid :: bool
  val_error :: "string option"

definition invalid :: "string \<Rightarrow> validation" where
  "invalid msg = \<lparr>valid = False, val_error = Some msg\<rparr>"

definition required_files :: "path list" where
  "required_files = [ [''package.json''], [''dist'', ''remoteEntry.js''] ]"

definition required_fields :: "string list" where
  "required_fields = [''name'', ''version'']"

text \<open>
  The loop over \<^verbatim>\<open>required_fields\<close>: \<open>Some v\<close> is the \<^verbatim>\<open>return\<close> from inside the
  loop, \<open>None\<close> is falling through.
\<close>

fun check_fields :: "json \<Rightarrow> string list \<Rightarrow> exn + validation option" where
  "check_fields package_data [] = Inr None"
| "check_fields package_data (field # rest) =
     (case py_in field package_data of
        Inl e \<Rightarrow> Inl e
      | Inr present \<Rightarrow>
          if \<not> present
          then Inr (Some (invalid (''BrainDriveChat: package.json missing required field: '' @ field)))
          else check_fields package_data rest)"

text \<open>
  The inner \<^verbatim>\<open>try\<close>, which catches \<^verbatim>\<open>json.JSONDecodeError\<close> and
  \<^verbatim>\<open>FileNotFoundError\<close> only.
\<close>

definition check_package_json :: "tree \<Rightarrow> exn + validation option" where
  "check_package_json plugin_dir =
     (case (case json_load plugin_dir [''package.json''] of
              Inl e \<Rightarrow> Inl e
            | Inr package_data \<Rightarrow> check_fields package_data required_fields) of
        Inl e \<Rightarrow>
          if e = JSONDecodeError \<or> e = FileNotFoundError
          then Inr (Some (invalid (''BrainDriveChat: Invalid or missing package.json: '' @ str e)))
          else Inl e
      | Inr r \<Rightarrow> Inr r)"

definition validate_installation_try :: "tree \<Rightarrow> exn + validation" where
  "validate_installation_try plugin_dir =
     (let missing_files = filter (\<lambda>file_path. \<not> path_exists plugin_dir file_path) required_files
      in if missing_files \<noteq> []
         then Inr (invalid (''BrainDriveChat: Missing required files: ''
                             @ join '', '' (map (join ''/'') missing_files)))
         else
           (case check_package_json plugin_dir of
              Inl e \<Rightarrow> Inl e
            | Inr (Some v) \<Rightarrow> Inr v
            | Inr None \<Rightarrow>
                (case st_size plugin_dir [''dist'', ''remoteEntry.js''] of
                   Inl e \<Rightarrow> Inl e
                 | Inr n \<Rightarrow>
                     if n = 0
                     then Inr (invalid ''BrainDriveChat: Bundle file (remoteEntry.js) is empty'')
                     else Inr \<lparr>valid = True, val_error = None\<rparr>)))"

text \<open>\<open>Inl\<close> of the result would be an exception that reaches the caller.\<close>

definition validate_installation_impl :: "string \<Rightarrow> tree \<Rightarrow> exn + validation" where
  "validate_installation_impl user_id plugin_dir =
     (case validate_installation_try plugin_dir of
        Inl e \<Rightarrow> Inr (invalid (str e))
      | Inr v \<Rightarrow> Inr v)"

subsection \<open>The health inspector\<close>

record health_info =
  bundle_exists :: bool
  bundle_size :: nat
  package_json_valid :: bool
  assets_present :: bool
  chat_components_present :: bool

datatype details = Info health_info | Error string

record health =
  healthy :: bool
  details :: details

definition get_plugin_health_try :: "tree \<Rightarrow> exn + health" where
  "get_plugin_health_try plugin_dir =
     (case (if path_exists plugin_dir [''dist'', ''remoteEntry.js'']
            then (case st_size plugin_dir [''dist'', ''remoteEntry.js''] of
                    Inl e \<Rightarrow> Inl e
                  | Inr n \<Rightarrow> Inr (True, n))
            else Inr (False, 0)) of
        Inl e \<Rightarrow> Inl e
      | Inr (b_exists, b_size) \<Rightarrow>
          (case (if path_exists plugin_dir [''package.json'']
                 then (case json_load plugin_dir [''package.json''] of
                         Inl e \<Rightarrow> if e = JSONDecodeError then Inr False else Inl e
                       | Inr _ \<Rightarrow> Inr True)
                 else Inr False) of
             Inl e \<Rightarrow> Inl e
           | Inr pj_valid \<Rightarrow>
               (let assets = (path_exists plugin_dir [''assets''] \<and> is_dir plugin_dir [''assets'']);
                    chat_files =
                      (if path_exists plugin_dir [''src''] \<and> is_dir plugin_dir [''src'']
                       then rglob plugin_dir [''src''] ''Chat'' @ rglob plugin_dir [''src''] ''Model''
                              @ rglob plugin_dir [''src''] ''History''
                       else [])
                in Inr \<lparr>healthy = (b_exists \<and> b_size > 0 \<and> pj_valid),
                        details = Info \<lparr>bundle_exists = b_exists, bundle_size = b_size,
                                        package_json_valid = pj_valid, assets_present = assets,
                                        chat_components_present = (chat_files \<noteq> [])\<rparr>\<rparr>)))"

definition get_plugin_health_impl :: "string \<Rightarrow> tree \<Rightarrow> exn + health" where
  "get_plugin_health_impl user_id plugin_dir =
     (case get_plugin_health_try plugin_dir of
        Inl e \<Rightarrow> Inr \<lparr>healthy = False, details = Error (str e)\<rparr>
      | Inr h \<Rightarrow> Inr h)"


subsection \<open>The file synchronizer\<close>

text \<open>
  The source directory is the list of what \<^verbatim>\<open>source_dir.rglob('*')\<close> yields, in the
  order of the traversal, each entry with its path relative to \<^verbatim>\<open>source_dir\<close> and its
  kind; \<^verbatim>\<open>lifecycle_manager_source.exists()\<close> is read off that list. The target
  directory maps a relative path to the kind of what is there. Whether a call of the
  operating system raises is the environment's choice: \<open>os_faults\<close> is the script of the
  coming \<^verbatim>\<open>mkdir\<close>, \<^verbatim>\<open>unlink\<close> and \<^verbatim>\<open>copy2\<close> calls, \<open>True\<close> raises, and an
  empty script raises nothing. A call that the state of the target directory forces to
  raise (\<^verbatim>\<open>unlink\<close> of a directory, \<^verbatim>\<open>mkdir\<close> over a file) is a call whose entry
  in the script is \<open>True\<close>; the statements below hold for every script. \<open>written\<close>
  lists the source files, by relative path, whose \<^verbatim>\<open>copy2\<close> call has returned,
  \<open>warnings\<close> the paths that \<^verbatim>\<open>logger.warning\<close> has reported.
\<close>

datatype kind = RegularFile | Directory | Special

type_synonym source = "(path \<times> kind) list"

record fs =
  target :: "path \<Rightarrow> kind option"
  os_faults :: "bool list"
  written :: "path list"
  warnings :: "path list"

definition exclude_patterns :: "string list" where
  "exclude_patterns = [''node_modules'', ''package-lock.json'', ''.git'', ''.gitignore'',
     ''__pycache__'', ''*.pyc'', ''.DS_Store'', ''Thumbs.db'']"

definition should_copy :: "path \<Rightarrow> bool" where
  "should_copy p =
     (if \<exists>part \<in> set p. part \<in> set exclude_patterns then False
      else if \<exists>pattern \<in> set exclude_patterns.
                CHR ''*'' \<in> set pattern \<and> endswith (name p) (filter (\<lambda>c. c \<noteq> CHR ''*'') pattern)
      then False
      else True)"

definition os_call :: "(fs \<Rightarrow> fs) \<Rightarrow> (fs, unit) comp" where
  "os_call effect t =
     (case os_faults t of
        True # rest \<Rightarrow> (Inl OSError, t\<lparr>os_faults := rest\<rparr>)
      | False # rest \<Rightarrow> (Inr (), effect (t\<lparr>os_faults := rest\<rparr>))
      | [] \<Rightarrow> (Inr (), effect t))"

text \<open>\<^verbatim>\<open>p.mkdir(parents=True, exist_ok=True)\<close>: \<open>p\<close> and the directories above it.\<close>

definition mkdir :: "path \<Rightarrow> (fs, unit) comp" where
  "mkdir p =
     os_call (\<lambda>t. t\<lparr>target := (\<lambda>q. if q \<in> set (map (\<lambda>n. take n p) [0..<Suc (length p)])
                                       \<and> target t q = None
                                    then Some Directory else target t q)\<rparr>)"

definition unlink :: "path \<Rightarrow> (fs, unit) comp" where
  "unlink p = os_call (\<lambda>t. t\<lparr>target := (target t)(p := None)\<rparr>)"

text \<open>
  \<^verbatim>\<open>shutil.copy2(source_dir / p, target_dir / p)\<close>. When the destination is a
  directory, \<^verbatim>\<open>copy2\<close> writes the file inside it under the name of the source file,
  and the destination stays a directory. A special file (a device) that is written to
  stays what it is; anything else at the place of the file becomes a regular file.
\<close>

definition copy2_dst :: "fs \<Rightarrow> path \<Rightarrow> path" where
  "copy2_dst t p = (if target t p = Some Directory then p @ [name p] else p)"

definition copy2 :: "path \<Rightarrow> (fs, unit) comp" where
  "copy2 p =
     os_call (\<lambda>t. t\<lparr>target := (target t)(copy2_dst t p \<mapsto>
                                  (if target t (copy2_dst t p) = Some Special then Special
                                   else RegularFile)),
                    written := written t @ [p]\<rparr>)"

definition warning :: "path \<Rightarrow> (fs, unit) comp" where
  "warning p t = (Inr (), t\<lparr>warnings := warnings t @ [p]\<rparr>)"

text \<open>\<^verbatim>\<open>if update and target_path.exists(): target_path.unlink()\<close>\<close>

definition unlink_if_update :: "bool \<Rightarrow> path \<Rightarrow> (fs, unit) comp" where
  "unlink_if_update update p t =
     (if update \<and> target t p \<noteq> None then unlink p t else (Inr (), t))"

text \<open>The inner \<^verbatim>\<open>try\<close> block of the loop, for one entry.\<close>

definition copy_item :: "bool \<Rightarrow> path \<Rightarrow> kind \<Rightarrow> path list \<Rightarrow> (fs, path list) comp" where
  "copy_item update relative_path k copied_files =
     (if k = RegularFile then
        bind (mkdir (butlast relative_path)) (\<lambda>_.
        bind (unlink_if_update update relative_path) (\<lambda>_.
        bind (copy2 relative_path) (\<lambda>_.
        ret (copied_files @ [relative_path]))))
      else if k = Directory then
        bind (mkdir relative_path) (\<lambda>_. ret copied_files)
      else ret copied_files)"

fun copy_items :: "bool \<Rightarrow> source \<Rightarrow> path list \<Rightarrow> (fs, path list) comp" where
  "copy_items update [] copied_files = ret copied_files"
| "copy_items update ((relative_path, k) # rest) copied_files =
     (if name relative_path = ''lifecycle_manager.py'' \<and> relative_path = [''lifecycle_manager.py'']
      then copy_items update rest copied_files
      else if \<not> should_copy relative_path
      then copy_items update rest copied_files
      else
        bind (try_except (copy_item update relative_path k copied_files)
                (\<lambda>e. bind (warning relative_path) (\<lambda>_. ret copied_files)))
          (\<lambda>copied_files. copy_items update rest copied_files))"

record copy_result =
  cp_success :: bool
  cp_copied_files :: "path list option"
  cp_error :: "string option"

text \<open>
  The copy of \<^verbatim>\<open>lifecycle_manager.py\<close> itself after the loop, the outer \<^verbatim>\<open>try\<close>
  block of \<^verbatim>\<open>_copy_plugin_files_impl\<close>, and the function.
\<close>

definition copy_lifecycle_manager :: "bool \<Rightarrow> source \<Rightarrow> path list \<Rightarrow> (fs, path list) comp" where
  "copy_lifecycle_manager update src copied_files =
     (if [''lifecycle_manager.py''] \<in> set (map fst src) then
        bind (mkdir []) (\<lambda>_.
        bind (unlink_if_update update [''lifecycle_manager.py'']) (\<lambda>_.
        bind (copy2 [''lifecycle_manager.py'']) (\<lambda>_.
        ret (copied_files @ [ [''lifecycle_manager.py''] ]))))
      else ret copied_files)"

definition copy_plugin_files_try :: "bool \<Rightarrow> source \<Rightarrow> (fs, copy_result) comp" where
  "copy_plugin_files_try update src =
     bind (copy_items update src []) (\<lambda>copied_files.
     bind (copy_lifecycle_manager update src copied_files) (\<lambda>copied_files.
     ret \<lparr>cp_success = True, cp_copied_files = Some copied_files, cp_error = None\<rparr>))"

definition copy_plugin_files_impl :: "string \<Rightarrow> source \<Rightarrow> bool \<Rightarrow> (fs, copy_result) comp" where
  "copy_plugin_files_impl user_id src update =
     try_except (copy_plugin_files_try update src)
       (\<lambda>e. ret \<lparr>cp_success = False, cp_copied_files = None, cp_error = Some (str e)\<rparr>)"


subsection \<open>Notions used in the statements\<close>

text \<open>
  The rows and the result entries that the module loop produces for plugin \<open>pid\<close>, from
  module identifier \<open>n\<close> on.
\<close>

fun module_rows :: "nat \<Rightarrow> nat \<Rightarrow> module_descriptor list \<Rightarrow> module_row list" where
  "module_rows pid n [] = []"
| "module_rows pid n (m # ms) = new_module_row n pid m # module_rows pid (Suc n) ms"

fun module_refs :: "nat \<Rightarrow> module_descriptor list \<Rightarrow> module_ref list" where
  "module_refs n [] = []"
| "module_refs n (m # ms) =
     \<lparr>ref_id = n, ref_name = md_name m, ref_display_name = Some (md_display_name m)\<rparr>
       # module_refs (Suc n) ms"

text \<open>The engine raises at none of the next \<open>n\<close> calls.\<close>

definition no_fault :: "nat \<Rightarrow> db \<Rightarrow> bool" where
  "no_fault n d = (True \<notin> set (take n (faults d)))"

text \<open>
  A trace is in insertion order when every module insert, done or attempted, comes after
  a completed plugin insert; it is in deletion order when every plugin delete, done or
  attempted, comes after the completed delete of the modules of that plugin.
\<close>

fun inserts_ordered :: "bool \<Rightarrow> event list \<Rightarrow> bool" where
  "inserts_ordered seen [] = True"
| "inserts_ordered seen (Done (InsertPlugin u s) # es) = inserts_ordered True es"
| "inserts_ordered seen (Done (InsertModule p n) # es) = (seen \<and> inserts_ordered seen es)"
| "inserts_ordered seen (Raised (InsertModule p n) # es) = (seen \<and> inserts_ordered seen es)"
| "inserts_ordered seen (e # es) = inserts_ordered seen es"

fun deletes_ordered :: "nat list \<Rightarrow> event list \<Rightarrow> bool" where
  "deletes_ordered seen [] = True"
| "deletes_ordered seen (Done (DeleteModules p) # es) = deletes_ordered (p # seen) es"
| "deletes_ordered seen (Done (DeletePlugin p u) # es) = (p \<in> set seen \<and> deletes_ordered seen es)"
| "deletes_ordered seen (Raised (DeletePlugin p u) # es) = (p \<in> set seen \<and> deletes_ordered seen es)"
| "deletes_ordered seen (e # es) = deletes_ordered seen es"

text \<open>A statement that only reads.\<close>

fun is_select :: "event \<Rightarrow> bool" where
  "is_select (Done SelectCount) = True"
| "is_select (Raised SelectCount) = True"
| "is_select (Done (SelectPlugin u s)) = True"
| "is_select (Raised (SelectPlugin u s)) = True"
| "is_select (Done (SelectModules p)) = True"
| "is_select (Raised (SelectModules p)) = True"
| "is_select e = False"

text \<open>At most one plugin record per user and slug.\<close>

definition at_most_one :: "plugin_row list \<Rightarrow> bool" where
  "at_most_one tbl = distinct (map (\<lambda>r. (p_user_id r, p_plugin_slug r)) tbl)"

text \<open>A session on an empty database, with a given script.\<close>

definition empty_db :: "bool list \<Rightarrow> db" where
  "empty_db script = \<lparr>plugin_tbl = [], module_tbl = [], committed_plugin = [],
     committed_module = [], next_plugin_id = 1, next_module_id = 1, faults = script,
     trace = []\<rparr>"

text \<open>What the lookup returns when it finds no row.\<close>

definition not_found :: existing where
  "not_found = \<lparr>ex_exists = False, ex_plugin_id = None, ex_plugin_info = None, ex_error = None\<rparr>"

text \<open>Two calls in a row: \<^verbatim>\<open>_perform_user_installation\<close> and the lookup after it.\<close>

definition install_then_lookup ::
  "binding \<Rightarrow> manager \<Rightarrow> string \<Rightarrow> db \<Rightarrow> (exn + result) \<times> (exn + existing)" where
  "install_then_lookup b self user_id d =
     (case perform_user_installation b self user_id d of
        (r, d') \<Rightarrow> (r, fst (check_existing_plugin self user_id d')))"

text \<open>
  For the file synchronizer: the number of coming calls of the operating system that
  raise, a path that the exclusion set rules out, what holds after the loop over the
  source entries (\<open>ws\<close> the files copied, \<open>wn\<close> the paths warned about), and an empty
  target directory with a given script.
\<close>

definition pending :: "fs \<Rightarrow> nat" where
  "pending t = length (filter (\<lambda>b. b) (os_faults t))"

definition excluded :: "path \<Rightarrow> bool" where
  "excluded p = ((\<exists>part \<in> set p. part \<in> set exclude_patterns) \<or> endswith (name p) ''.pyc'')"

definition loop_post :: "source \<Rightarrow> path list \<Rightarrow> fs \<Rightarrow> fs \<Rightarrow> path list \<Rightarrow> path list \<Rightarrow> bool" where
  "loop_post src acc t t1 ws wn \<longleftrightarrow>
     written t1 = written t @ ws \<and> warnings t1 = warnings t @ wn \<and>
     length wn + pending t1 = pending t \<and>
     (\<forall>p \<in> set ws. should_copy p \<and> p \<noteq> [''lifecycle_manager.py''] \<and> (p, RegularFile) \<in> set src) \<and>
     set wn \<subseteq> fst ` set src \<and>
     (\<forall>p. (p, RegularFile) \<in> set src \<and> should_copy p \<and> p \<noteq> [''lifecycle_manager.py'']
          \<longrightarrow> p \<in> set ws \<or> p \<in> set wn)"

definition empty_target :: "bool list \<Rightarrow> fs" where
  "empty_target script = \<lparr>target = (\<lambda>p. None), os_faults = script, written = [], warnings = []\<rparr>"

section \<open>Properties of the record store\<close>

subsection \<open>The calls one by one\<close>

lemma no_fault_0: "no_fault 0 d"
  by (simp add: no_fault_def)

lemma no_fault_add:
  "faults d' = drop n (faults d) \<Longrightarrow> no_fault (n + m) d \<longleftrightarrow> no_fault n d \<and> no_fault m d'"
  by (auto simp: no_fault_def take_add)

lemma no_fault_1: "no_fault (Suc 0) d \<longleftrightarrow> \<not> raises d"
  by (cases "faults d") (auto simp: no_fault_def raises_def)

lemma no_fault_Suc:
  "faults d' = tl (faults d) \<Longrightarrow> no_fault (Suc n) d \<longleftrightarrow> \<not> raises d \<and> no_fault n d'"
  by (cases "faults d") (auto simp: no_fault_def raises_def)

lemma no_fault_mono: "n \<le> m \<Longrightarrow> no_fault m d \<Longrightarrow> no_fault n d"
  using set_take_subset_set_take [of n m "faults d"] by (auto simp: no_fault_def)

lemma raises_fault: "raises d \<Longrightarrow> \<not> no_fault (Suc n) d"
  by (cases "faults d") (auto simp: no_fault_def raises_def)

lemma execute_Inr:
  "execute s run d = (Inr x, d') \<Longrightarrow> \<not> raises d \<and> (x, d') = run (advance (Done s) d)"
  by (auto simp: execute_def split: if_splits prod.splits)

lemma execute_Inl:
  "execute s run d = (Inl e, d') \<Longrightarrow> raises d \<and> e = DatabaseError \<and> d' = advance (Raised s) d"
  by (auto simp: execute_def split: if_splits prod.splits)

lemma insert_module_Inr:
  "insert_module pid m d = (Inr i, d') \<Longrightarrow>
     i = next_module_id d \<and> next_module_id d' = Suc (next_module_id d) \<and>
     next_plugin_id d' = next_plugin_id d \<and>
     module_tbl d' = module_tbl d @ [new_module_row (next_module_id d) pid m] \<and>
     plugin_tbl d' = plugin_tbl d \<and> committed_plugin d' = committed_plugin d \<and>
     committed_module d' = committed_module d \<and>
     trace d' = trace d @ [Done (InsertModule pid (md_name m))] \<and>
     faults d' = tl (faults d) \<and> \<not> raises d"
  unfolding insert_module_def by (drule execute_Inr) (auto simp: advance_def)

lemma insert_module_Inl:
  "insert_module pid m d = (Inl e, d') \<Longrightarrow>
     e = DatabaseError \<and> d' = advance (Raised (InsertModule pid (md_name m))) d \<and> raises d"
  unfolding insert_module_def by (drule execute_Inl) simp

lemma insert_plugin_Inr:
  "insert_plugin u pd d = (Inr i, d') \<Longrightarrow>
     i = next_plugin_id d \<and> next_plugin_id d' = Suc (next_plugin_id d) \<and>
     next_module_id d' = next_module_id d \<and>
     plugin_tbl d' = plugin_tbl d @ [new_plugin_row (next_plugin_id d) u pd] \<and>
     module_tbl d' = module_tbl d \<and> committed_plugin d' = committed_plugin d \<and>
     committed_module d' = committed_module d \<and>
     trace d' = trace d @ [Done (InsertPlugin u (pd_plugin_slug pd))] \<and>
     faults d' = tl (faults d) \<and> \<not> raises d"
  unfolding insert_plugin_def by (drule execute_Inr) (auto simp: advance_def)

lemma insert_plugin_Inl:
  "insert_plugin u pd d = (Inl e, d') \<Longrightarrow>
     e = DatabaseError \<and> d' = advance (Raised (InsertPlugin u (pd_plugin_slug pd))) d \<and> raises d"
  unfolding insert_plugin_def by (drule execute_Inl) simp

lemma commit_Inr:
  "commit d = (Inr x, d') \<Longrightarrow>
     plugin_tbl d' = plugin_tbl d \<and> module_tbl d' = module_tbl d \<and>
     committed_plugin d' = plugin_tbl d \<and> committed_module d' = module_tbl d \<and>
     trace d' = trace d @ [Done Commit] \<and>
     faults d' = tl (faults d) \<and> \<not> raises d"
  unfolding commit_def by (drule execute_Inr) (auto simp: advance_def)

lemma commit_Inl:
  "commit d = (Inl e, d') \<Longrightarrow>
     e = DatabaseError \<and> d' = advance (Raised Commit) d \<and> raises d"
  unfolding commit_def by (drule execute_Inl) simp

lemma rollback_cases:
  "rollback d =
     (if raises d then (Inl DatabaseError, advance (Raised Rollback) d)
      else (Inr (), (advance (Done Rollback) d)
                      \<lparr>plugin_tbl := committed_plugin d, module_tbl := committed_module d\<rparr>))"
  by (simp add: rollback_def execute_def advance_def)

subsection \<open>The module loop\<close>

lemma insert_modules_Inr:
  "insert_modules pid ms acc d = (Inr created, d') \<Longrightarrow>
     created = acc @ module_refs (next_module_id d) ms \<and>
     next_module_id d' = next_module_id d + length ms \<and>
     next_plugin_id d' = next_plugin_id d \<and>
     module_tbl d' = module_tbl d @ module_rows pid (next_module_id d) ms \<and>
     plugin_tbl d' = plugin_tbl d \<and> committed_plugin d' = committed_plugin d \<and>
     committed_module d' = committed_module d \<and>
     trace d' = trace d @ map (\<lambda>m. Done (InsertModule pid (md_name m))) ms \<and>
     faults d' = drop (length ms) (faults d) \<and> no_fault (length ms) d"
proof (induction ms arbitrary: acc d)
  case Nil
  then show ?case by (simp add: ret_def no_fault_0)
next
  case (Cons m ms)
  from Cons.prems obtain i d1 where
    s1: "insert_module pid m d = (Inr i, d1)" and
    s2: "insert_modules pid ms
           (acc @ [\<lparr>ref_id = i, ref_name = md_name m,
                    ref_display_name = Some (md_display_name m)\<rparr>]) d1 = (Inr created, d')"
    by (auto simp: bind_def split: prod.splits sum.splits)
  note a = insert_module_Inr [OF s1] and b = Cons.IH [OF s2]
  from a b have "no_fault (length (m # ms)) d"
    using no_fault_Suc [of d1 d "length ms"] by simp
  with a b show ?case by (simp add: drop_Suc drop_tl)
qed

lemma insert_modules_Inl:
  "insert_modules pid ms acc d = (Inl e, d') \<Longrightarrow>
     e = DatabaseError \<and>
     plugin_tbl d' = plugin_tbl d \<and> committed_plugin d' = committed_plugin d \<and>
     committed_module d' = committed_module d \<and> \<not> no_fault (length ms) d \<and>
     (\<exists>es. trace d' = trace d @ es \<and>
        (\<forall>x \<in> set es. \<exists>n. x = Done (InsertModule pid n) \<or> x = Raised (InsertModule pid n)))"
proof (induction ms arbitrary: acc d)
  case Nil
  then show ?case by (simp add: ret_def)
next
  case (Cons m ms)
  show ?case
  proof (cases "insert_module pid m d")
    case (Pair r d1)
    show ?thesis
    proof (cases r)
      case (Inl e1)
      with Pair Cons.prems have "d' = d1" "e = e1" by (simp_all add: bind_def)
      with insert_module_Inl [of pid m d e1 d1] Pair Inl show ?thesis
        by (auto simp: advance_def raises_fault)
    next
      case (Inr i)
      with Pair Cons.prems have s2: "insert_modules pid ms
           (acc @ [\<lparr>ref_id = i, ref_name = md_name m,
                    ref_display_name = Some (md_display_name m)\<rparr>]) d1 = (Inl e, d')"
        by (simp add: bind_def)
      from Pair Inr have s1: "insert_module pid m d = (Inr i, d1)" by simp
      note a = insert_module_Inr [OF s1] and b = Cons.IH [OF s2]
      from a b have "\<not> no_fault (length (m # ms)) d"
        using no_fault_Suc [of d1 d "length ms"] by simp
      with a b show ?thesis by auto
    qed
  qed
qed

subsection \<open>Insert\<close>

lemma create_try_module:
  "create_database_records_try DatetimeModule self u =
     bind (insert_plugin u (plugin_data self)) (\<lambda>pid.
     bind (insert_modules pid (module_data self) []) (\<lambda>created.
     bind commit (\<lambda>_.
     ret \<lparr>success = True, error = None, plugin_id = Some pid, plugin_slug = None,
          plugin_name = None, modules_created = Some created, deleted_modules = None\<rparr>)))"
  by (simp add: create_database_records_try_def datetime_datetime_now_def bind_def ret_def)

lemma create_try_class:
  "create_database_records_try DatetimeClass self u d = (Inl AttributeError, d)"
  by (simp add: create_database_records_try_def datetime_datetime_now_def bind_def raise_def)

lemma create_try_Inr:
  assumes "create_database_records_try DatetimeModule self u d = (Inr res, d')"
  shows "res = \<lparr>success = True, error = None, plugin_id = Some (next_plugin_id d),
             plugin_slug = None, plugin_name = None,
             modules_created = Some (module_refs (next_module_id d) (module_data self)),
             deleted_modules = None\<rparr> \<and>
     plugin_tbl d' = plugin_tbl d @ [new_plugin_row (next_plugin_id d) u (plugin_data self)] \<and>
     module_tbl d' =
       module_tbl d @ module_rows (next_plugin_id d) (next_module_id d) (module_data self) \<and>
     committed_plugin d' = plugin_tbl d' \<and> committed_module d' = module_tbl d' \<and>
     trace d' = trace d @ Done (InsertPlugin u (pd_plugin_slug (plugin_data self)))
        # map (\<lambda>m. Done (InsertModule (next_plugin_id d) (md_name m))) (module_data self)
        @ [Done Commit] \<and>
     faults d' = drop (length (module_data self) + 2) (faults d) \<and>
     no_fault (length (module_data self) + 2) d"
proof -
  from assms obtain pid d1 created d2 x where
    s1: "insert_plugin u (plugin_data self) d = (Inr pid, d1)" and
    s2: "insert_modules pid (module_data self) [] d1 = (Inr created, d2)" and
    s3: "commit d2 = (Inr x, d')" and
    r: "res = \<lparr>success = True, error = None, plugin_id = Some pid, plugin_slug = None,
             plugin_name = None, modules_created = Some created, deleted_modules = None\<rparr>"
    by (auto simp: create_try_module bind_def ret_def split: prod.splits sum.splits)
  note a = insert_plugin_Inr [OF s1] and b = insert_modules_Inr [OF s2] and c = commit_Inr [OF s3]
  have f1: "faults d1 = drop (Suc 0) (faults d)"
    using a by (simp add: drop_Suc)
  have f2: "faults d2 = drop (Suc 0 + length (module_data self)) (faults d)"
    using b f1 by (simp add: add.commute)
  have f3: "faults d' = drop (length (module_data self) + 2) (faults d)"
    using c f2 by (simp add: drop_Suc tl_drop)
  have "no_fault (Suc 0 + length (module_data self)) d"
    using no_fault_add [OF f1, of "length (module_data self)"] a b by (simp add: no_fault_1)
  moreover have "no_fault (Suc 0) d2"
    using c by (simp add: no_fault_1)
  ultimately have "no_fault (Suc 0 + length (module_data self) + Suc 0) d"
    using no_fault_add [OF f2, of "Suc 0"] by simp
  then have nf: "no_fault (length (module_data self) + 2) d"
    by (simp add: add.commute)
  show ?thesis using a b c r nf f3 by simp
qed

lemma create_try_Inl:
  assumes "create_database_records_try DatetimeModule self u d = (Inl e, d')"
  shows "e = DatabaseError \<and>
     committed_plugin d' = committed_plugin d \<and> committed_module d' = committed_module d \<and>
     \<not> no_fault (length (module_data self) + 2) d \<and>
     (\<exists>es. trace d' = trace d @ es \<and> Done Commit \<notin> set es \<and>
        (es = [Raised (InsertPlugin u (pd_plugin_slug (plugin_data self)))] \<or>
         (\<exists>es'. es = Done (InsertPlugin u (pd_plugin_slug (plugin_data self))) # es')))"
proof (cases "insert_plugin u (plugin_data self) d")
  case (Pair r1 d1)
  show ?thesis
  proof (cases r1)
    case (Inl e1)
    with Pair assms have "d' = d1" "e = e1" by (simp_all add: create_try_module bind_def)
    with insert_plugin_Inl [of u "plugin_data self" d e1 d1] Pair Inl show ?thesis
      by (auto simp: advance_def raises_fault)
  next
    case (Inr pid)
    with Pair have s1: "insert_plugin u (plugin_data self) d = (Inr pid, d1)" by simp
    note a = insert_plugin_Inr [OF s1]
    have f1: "faults d1 = drop (Suc 0) (faults d)"
      using a by (simp add: drop_Suc)
    show ?thesis
    proof (cases "insert_modules pid (module_data self) [] d1")
      case (Pair r2 d2)
      note P2 = this
      show ?thesis
      proof (cases r2)
        case (Inl e2)
        with P2 s1 assms have "d' = d2" "e = e2"
          by (simp_all add: create_try_module bind_def)
        with P2 Inl have s2: "insert_modules pid (module_data self) [] d1 = (Inl e, d')" by simp
        note b = insert_modules_Inl [OF s2]
        have "\<not> no_fault (Suc 0 + length (module_data self)) d"
          using no_fault_add [OF f1, of "length (module_data self)"] b by simp
        then have nf: "\<not> no_fault (length (module_data self) + 2) d"
          using no_fault_mono [of "Suc 0 + length (module_data self)"
                                  "length (module_data self) + 2" d]
          by auto
        from b obtain es where es: "trace d' = trace d1 @ es"
          "\<forall>x \<in> set es. \<exists>n. x = Done (InsertModule pid n) \<or> x = Raised (InsertModule pid n)"
          by blast
        from es have "Done Commit \<notin> set es" by auto
        with a b es nf show ?thesis by auto
      next
        case (Inr created)
        with P2 have s2: "insert_modules pid (module_data self) [] d1 = (Inr created, d2)" by simp
        note b = insert_modules_Inr [OF s2]
        from s1 s2 assms have s3: "commit d2 = (Inl e, d')"
          by (auto simp: create_try_module bind_def ret_def
                split: prod.splits sum.splits)
        note c = commit_Inl [OF s3]
        have f2: "faults d2 = drop (Suc 0 + length (module_data self)) (faults d)"
          using b f1 by (simp add: add.commute)
        have "\<not> no_fault (Suc 0) d2" using c by (simp add: no_fault_1)
        then have "\<not> no_fault (Suc 0 + length (module_data self) + Suc 0) d"
          using no_fault_add [OF f2, of "Suc 0"] by simp
        then have nf: "\<not> no_fault (length (module_data self) + 2) d"
          by (simp add: add.commute)
        from a b c nf show ?thesis by (auto simp: advance_def)
      qed
    qed
  qed
qed

lemma create_database_records_unfold:
  "create_database_records b self u d =
     (case create_database_records_try b self u d of
        (Inl e, d1) \<Rightarrow>
          (if raises d1 then (Inl DatabaseError, advance (Raised Rollback) d1)
           else (Inr (failure (str e)),
                 (advance (Done Rollback) d1)
                   \<lparr>plugin_tbl := committed_plugin d1, module_tbl := committed_module d1\<rparr>))
      | (Inr res, d1) \<Rightarrow> (Inr res, d1))"
  by (simp add: create_database_records_def try_except_def bind_def ret_def rollback_cases
        split: prod.splits sum.splits)

lemma create_database_records_class:
  "create_database_records DatetimeClass self u d =
     (if raises d then (Inl DatabaseError, advance (Raised Rollback) d)
      else (Inr (failure (str AttributeError)),
            (advance (Done Rollback) d)
              \<lparr>plugin_tbl := committed_plugin d, module_tbl := committed_module d\<rparr>))"
  by (simp add: create_database_records_unfold create_try_class)

lemma inserts_ordered_True: "inserts_ordered True es"
  by (induction True es rule: inserts_ordered.induct) simp_all


text \<open>
  Claim C3 does not hold as it stands: \<^verbatim>\<open>await db.rollback()\<close> stands unprotected in
  the handler, so when an insert raises and the rollback raises too,
  \<^verbatim>\<open>_create_database_records\<close> returns no failure result: the second exception
  reaches the caller. The same happens where \<^verbatim>\<open>datetime\<close> is bound to the class and
  the rollback raises.
\<close>

theorem create_database_records_counterexample:
  "create_database_records DatetimeModule BrainDriveChatLifecycleManager ''u1''
     (empty_db [True, True]) =
     (Inl DatabaseError,
      (empty_db [])\<lparr>trace := [Raised (InsertPlugin ''u1'' ''BrainDriveChat''),
                              Raised Rollback]\<rparr>) \<and>
   create_database_records DatetimeClass BrainDriveChatLifecycleManager ''u1''
     (empty_db [True]) =
     (Inl DatabaseError, (empty_db [])\<lparr>trace := [Raised Rollback]\<rparr>)"
  by (simp add: create_database_records_unfold create_try_class create_try_module
        bind_def insert_plugin_def execute_def raises_def advance_def empty_db_def
        BrainDriveChatLifecycleManager_def)

text \<open>
  Claim C3, amended. Let \<^verbatim>\<open>datetime\<close> be bound to the module. Then
  \<^verbatim>\<open>_create_database_records\<close> returns a success exactly when the engine raises at
  none of the plugin insert, the module inserts and the commit. On success the calls were
  one plugin insert, then one module insert per module descriptor, then the commit, with
  nothing in between; the committed tables are the session's tables before the call with
  the new plugin row and one module row per descriptor appended, each module row owned by
  the new plugin; and the result holds the identifier of the new plugin row and, per
  descriptor, the identifier, the name and the display name of its row. When a call
  raises, the next call is the rollback and no commit was done. If the rollback does not
  raise, the function returns a failure with an error and no identifier, the committed
  tables are the ones before the call and the session sees exactly them again. If the
  rollback raises, its exception reaches the caller, and the committed tables are still
  the ones before the call.
\<close>

theorem create_database_records_transaction:
  "\<exists>r d'. create_database_records DatetimeModule self user_id d = (r, d') \<and>
     ((\<exists>res. r = Inr res \<and> success res) \<longleftrightarrow> no_fault (length (module_data self) + 2) d) \<and>
     (\<forall>res. r = Inr res \<and> success res \<longrightarrow>
        plugin_id res = Some (next_plugin_id d) \<and>
        modules_created res = Some (module_refs (next_module_id d) (module_data self)) \<and>
        plugin_tbl d' =
          plugin_tbl d @ [new_plugin_row (next_plugin_id d) user_id (plugin_data self)] \<and>
        module_tbl d' =
          module_tbl d @ module_rows (next_plugin_id d) (next_module_id d) (module_data self) \<and>
        committed_plugin d' = plugin_tbl d' \<and> committed_module d' = module_tbl d' \<and>
        trace d' = trace d @ Done (InsertPlugin user_id (pd_plugin_slug (plugin_data self)))
          # map (\<lambda>m. Done (InsertModule (next_plugin_id d) (md_name m))) (module_data self)
          @ [Done Commit]) \<and>
     (\<forall>res. r = Inr res \<and> \<not> success res \<longrightarrow>
        error res \<noteq> None \<and> plugin_id res = None \<and> modules_created res = None \<and>
        committed_plugin d' = committed_plugin d \<and> committed_module d' = committed_module d \<and>
        plugin_tbl d' = committed_plugin d \<and> module_tbl d' = committed_module d \<and>
        (\<exists>es. trace d' = trace d @ es @ [Done Rollback] \<and> Done Commit \<notin> set es)) \<and>
     (\<forall>e. r = Inl e \<longrightarrow>
        committed_plugin d' = committed_plugin d \<and> committed_module d' = committed_module d \<and>
        (\<exists>es. trace d' = trace d @ es @ [Raised Rollback] \<and> Done Commit \<notin> set es))"
proof (cases "create_database_records_try DatetimeModule self user_id d")
  case (Pair r d1)
  show ?thesis
  proof (cases r)
    case (Inl e)
    with Pair have t: "create_database_records_try DatetimeModule self user_id d = (Inl e, d1)"
      by simp
    from create_try_Inl [OF t] obtain es where
      es: "trace d1 = trace d @ es" "Done Commit \<notin> set es" by blast
    from create_try_Inl [OF t] have
      c: "committed_plugin d1 = committed_plugin d" "committed_module d1 = committed_module d"
         "\<not> no_fault (length (module_data self) + 2) d"
      by simp_all
    show ?thesis
      using t es c by (simp add: create_database_records_unfold failure_def advance_def)
  next
    case (Inr res)
    with Pair have t: "create_database_records_try DatetimeModule self user_id d = (Inr res, d1)"
      by simp
    from create_try_Inr [OF t] show ?thesis
      using t by (simp add: create_database_records_unfold)
  qed
qed

theorem create_database_records_transaction_witness:
  "(\<exists>res d'. create_database_records DatetimeModule BrainDriveChatLifecycleManager ''u1''
                (empty_db []) = (Inr res, d') \<and> success res \<and> plugin_id res = Some 1 \<and>
      modules_created res = Some [\<lparr>ref_id = 1, ref_name = ''BrainDriveChat'',
                                     ref_display_name = Some ''AI Chat Interface''\<rparr>] \<and>
      map p_id (committed_plugin d') = [1] \<and> map m_plugin_id (committed_module d') = [1]) \<and>
   (\<exists>res d'. create_database_records DatetimeModule BrainDriveChatLifecycleManager ''u1''
                (empty_db [False, True]) = (Inr res, d') \<and>
      \<not> success res \<and> committed_plugin d' = [] \<and> committed_module d' = [] \<and>
      plugin_tbl d' = [] \<and> module_tbl d' = []) \<and>
   (\<exists>e d'. create_database_records DatetimeModule BrainDriveChatLifecycleManager ''u1''
                (empty_db [False, True, True]) = (Inl e, d') \<and>
      committed_plugin d' = [] \<and> committed_module d' = [])"
proof (intro conjI)
  let ?M = BrainDriveChatLifecycleManager
  have 1: "no_fault (length (module_data ?M) + 2) (empty_db [])"
    by (simp add: no_fault_def empty_db_def)
  from create_database_records_transaction [of ?M "''u1''" "empty_db []"] 1
  obtain res d' where
    r: "create_database_records DatetimeModule ?M ''u1'' (empty_db []) = (Inr res, d')"
       "success res"
       "plugin_id res = Some (next_plugin_id (empty_db []))"
       "modules_created res = Some (module_refs (next_module_id (empty_db [])) (module_data ?M))"
       "plugin_tbl d' = plugin_tbl (empty_db []) @
           [new_plugin_row (next_plugin_id (empty_db [])) ''u1'' (plugin_data ?M)]"
       "module_tbl d' = module_tbl (empty_db []) @
           module_rows (next_plugin_id (empty_db [])) (next_module_id (empty_db []))
              (module_data ?M)"
       "committed_plugin d' = plugin_tbl d'" "committed_module d' = module_tbl d'"
    by blast
  then show "\<exists>res d'. create_database_records DatetimeModule ?M ''u1''
                (empty_db []) = (Inr res, d') \<and> success res \<and> plugin_id res = Some 1 \<and>
      modules_created res = Some [\<lparr>ref_id = 1, ref_name = ''BrainDriveChat'',
                                     ref_display_name = Some ''AI Chat Interface''\<rparr>] \<and>
      map p_id (committed_plugin d') = [1] \<and> map m_plugin_id (committed_module d') = [1]"
    by (simp add: empty_db_def BrainDriveChatLifecycleManager_def
          new_plugin_row_def new_module_row_def)
next
  let ?M = BrainDriveChatLifecycleManager
  have 2: "\<not> no_fault (length (module_data ?M) + 2) (empty_db [False, True])"
    by (simp add: no_fault_def empty_db_def BrainDriveChatLifecycleManager_def)
  have 3: "fst (create_database_records DatetimeModule ?M ''u1'' (empty_db [False, True]))
             \<noteq> Inl DatabaseError"
    by (simp add: create_database_records_unfold create_try_module
        bind_def insert_plugin_def insert_module_def execute_def raises_def advance_def
        empty_db_def BrainDriveChatLifecycleManager_def)
  from create_database_records_transaction [of ?M "''u1''" "empty_db [False, True]"]
  obtain r d' where
    c: "create_database_records DatetimeModule ?M ''u1'' (empty_db [False, True]) = (r, d')"
    and s: "(\<exists>res. r = Inr res \<and> success res) \<longleftrightarrow>
              no_fault (length (module_data ?M) + 2) (empty_db [False, True])"
    and f: "\<forall>res. r = Inr res \<and> \<not> success res \<longrightarrow>
        error res \<noteq> None \<and> plugin_id res = None \<and> modules_created res = None \<and>
        committed_plugin d' = committed_plugin (empty_db [False, True]) \<and>
        committed_module d' = committed_module (empty_db [False, True]) \<and>
        plugin_tbl d' = committed_plugin (empty_db [False, True]) \<and>
        module_tbl d' = committed_module (empty_db [False, True]) \<and>
        (\<exists>es. trace d' = trace (empty_db [False, True]) @ es @ [Done Rollback] \<and>
              Done Commit \<notin> set es)"
    by blast
  from c 3 obtain res where res: "r = Inr res"
    by (cases r) (auto simp: create_database_records_unfold create_try_module
        bind_def insert_plugin_def insert_module_def execute_def raises_def advance_def
        empty_db_def BrainDriveChatLifecycleManager_def)
  with s 2 have "\<not> success res" by simp
  with res f c show "\<exists>res d'. create_database_records DatetimeModule ?M ''u1''
                (empty_db [False, True]) = (Inr res, d') \<and>
      \<not> success res \<and> committed_plugin d' = [] \<and> committed_module d' = [] \<and>
      plugin_tbl d' = [] \<and> module_tbl d' = []"
    by (simp add: empty_db_def)
next
  let ?M = BrainDriveChatLifecycleManager
  have 4: "fst (create_database_records DatetimeModule ?M ''u1'' (empty_db [False, True, True]))
             = Inl DatabaseError"
    by (simp add: create_database_records_unfold create_try_module
        bind_def insert_plugin_def insert_module_def execute_def raises_def advance_def
        empty_db_def BrainDriveChatLifecycleManager_def)
  from create_database_records_transaction [of ?M "''u1''" "empty_db [False, True, True]"]
  obtain r d' where
    c: "create_database_records DatetimeModule ?M ''u1'' (empty_db [False, True, True]) = (r, d')"
    and f: "\<forall>e. r = Inl e \<longrightarrow>
        committed_plugin d' = committed_plugin (empty_db [False, True, True]) \<and>
        committed_module d' = committed_module (empty_db [False, True, True]) \<and>
        (\<exists>es. trace d' = trace (empty_db [False, True, True]) @ es @ [Raised Rollback] \<and>
              Done Commit \<notin> set es)"
    by blast
  from c 4 have "r = Inl DatabaseError" by simp
  with f c show "\<exists>e d'. create_database_records DatetimeModule ?M ''u1''
                (empty_db [False, True, True]) = (Inl e, d') \<and>
      committed_plugin d' = [] \<and> committed_module d' = []"
    by (simp add: empty_db_def)
qed

subsection \<open>Delete, and the order of the calls\<close>

lemma delete_database_records_trace:
  "\<exists>r d' es. delete_database_records self u pid d = (r, d') \<and>
     trace d' = trace d @ es \<and> deletes_ordered [] es"
  by (auto simp: delete_database_records_def delete_database_records_try_def try_except_def
        bind_def ret_def execute_def select_modules_def delete_modules_def
        delete_plugin_row_def commit_def rollback_def advance_def
        split: if_splits prod.splits sum.splits)

lemma create_database_records_trace:
  "\<exists>r d' es. create_database_records b self u d = (r, d') \<and>
     trace d' = trace d @ es \<and> inserts_ordered False es"
proof (cases b)
  case DatetimeClass
  then show ?thesis by (simp add: create_database_records_class advance_def)
next
  case DatetimeModule
  show ?thesis
  proof (cases "create_database_records_try DatetimeModule self u d")
    case (Pair r d1)
    show ?thesis
    proof (cases r)
      case (Inl e)
      with Pair have t: "create_database_records_try DatetimeModule self u d = (Inl e, d1)"
        by simp
      from create_try_Inl [OF t] obtain es where
        es: "trace d1 = trace d @ es"
          "es = [Raised (InsertPlugin u (pd_plugin_slug (plugin_data self)))] \<or>
           (\<exists>es'. es = Done (InsertPlugin u (pd_plugin_slug (plugin_data self))) # es')"
        by blast
      then have "inserts_ordered False (es @ [Done Rollback])"
        "inserts_ordered False (es @ [Raised Rollback])"
        by (auto simp: inserts_ordered_True)
      with es t DatetimeModule show ?thesis
        by (simp add: create_database_records_unfold advance_def)
    next
      case (Inr res)
      with Pair have t: "create_database_records_try DatetimeModule self u d = (Inr res, d1)"
        by simp
      from create_try_Inr [OF t] t DatetimeModule show ?thesis
        by (simp add: create_database_records_unfold inserts_ordered_True)
    qed
  qed
qed

lemma delete_database_records_no_fault:
  "no_fault 4 d \<Longrightarrow>
     \<exists>r d'. delete_database_records self u pid d = (Inr r, d') \<and> success r \<and>
       trace d' = trace d @ [Done (SelectModules pid), Done (DeleteModules pid),
                             Done (DeletePlugin pid u), Done Commit]"
  by (cases "faults d" rule: list.exhaust; cases "tl (faults d)"; cases "tl (tl (faults d))";
      cases "tl (tl (tl (faults d)))")
     (auto simp: no_fault_def raises_def delete_database_records_def
        delete_database_records_try_def try_except_def
        bind_def ret_def execute_def select_modules_def delete_modules_def
        delete_plugin_row_def commit_def rollback_def advance_def)

lemma reverse_orders_rejected:
  "\<not> deletes_ordered [] [Done (DeletePlugin p u), Done (DeleteModules p)]"
  "\<not> deletes_ordered [] [Done (DeleteModules q), Done (DeletePlugin (Suc q) u)]"
  "\<not> inserts_ordered False [Done (InsertModule p n), Done (InsertPlugin u s)]"
  by simp_all

text \<open>
  Claim C4. Whatever the engine does and however the call ends, with a result or with an
  exception of the rollback, the calls that \<^verbatim>\<open>_delete_database_records\<close> issues are
  in deletion order: a delete of the plugin row, completed or only attempted, comes after
  the completed delete of the module rows of that plugin. The calls that
  \<^verbatim>\<open>_create_database_records\<close> issues, under either binding of \<^verbatim>\<open>datetime\<close>,
  are in insertion order: a module insert, completed or only attempted, comes after the
  completed insert of the plugin row. When the engine raises at none of its four calls,
  \<^verbatim>\<open>_delete_database_records\<close> issues the read of the modules, the delete of the
  modules, the delete of the plugin and the commit, in this order.
\<close>

theorem record_store_statement_order:
  "(\<exists>r d' es. delete_database_records self user_id pid d = (r, d') \<and>
      trace d' = trace d @ es \<and> deletes_ordered [] es \<and>
      (no_fault 4 d \<longrightarrow>
         es = [Done (SelectModules pid), Done (DeleteModules pid),
               Done (DeletePlugin pid user_id), Done Commit])) \<and>
   (\<exists>r d' es. create_database_records b self user_id d = (r, d') \<and>
      trace d' = trace d @ es \<and> inserts_ordered False es)"
proof
  from delete_database_records_trace [of self user_id pid d] obtain r d' es where
    a: "delete_database_records self user_id pid d = (r, d')" "trace d' = trace d @ es"
       "deletes_ordered [] es" by blast
  with delete_database_records_no_fault [of d self user_id pid]
  show "\<exists>r d' es. delete_database_records self user_id pid d = (r, d') \<and>
      trace d' = trace d @ es \<and> deletes_ordered [] es \<and>
      (no_fault 4 d \<longrightarrow>
         es = [Done (SelectModules pid), Done (DeleteModules pid),
               Done (DeletePlugin pid user_id), Done Commit])"
    by auto
next
  show "\<exists>r d' es. create_database_records b self user_id d = (r, d') \<and>
      trace d' = trace d @ es \<and> inserts_ordered False es"
    by (rule create_database_records_trace)
qed

theorem record_store_statement_order_witness:
  "\<exists>r d'. delete_database_records BrainDriveChatLifecycleManager ''u1'' 1 (empty_db []) = (r, d') \<and>
      trace d' = [Done (SelectModules 1), Done (DeleteModules 1),
                  Done (DeletePlugin 1 ''u1''), Done Commit]"
  using record_store_statement_order
          [of BrainDriveChatLifecycleManager "''u1''" 1 "empty_db []" DatetimeClass]
  by (auto simp: no_fault_def empty_db_def)

subsection \<open>Lookup\<close>

lemma check_existing_plugin_unfold:
  "check_existing_plugin self u d =
     (if raises d
      then (Inr (not_found\<lparr>ex_error := Some (str DatabaseError)\<rparr>), advance (Raised SelectCount) d)
      else if raises (advance (Done SelectCount) d)
      then (Inr (not_found\<lparr>ex_error := Some (str DatabaseError)\<rparr>),
            advance (Raised (SelectPlugin u (pd_plugin_slug (plugin_data self))))
              (advance (Done SelectCount) d))
      else (Inr (case fetchone (filter (matches u (pd_plugin_slug (plugin_data self))) (plugin_tbl d)) of
                   Some row \<Rightarrow> \<lparr>ex_exists = True, ex_plugin_id = Some (p_id row),
                                 ex_plugin_info = Some row, ex_error = None\<rparr>
                 | None \<Rightarrow> not_found),
            advance (Done (SelectPlugin u (pd_plugin_slug (plugin_data self))))
              (advance (Done SelectCount) d)))"
  by (simp add: check_existing_plugin_def try_except_def bind_def ret_def select_count_def
        select_plugin_def execute_def advance_def not_found_def split: option.splits)

lemma raises_advance: "raises (advance e d) \<longleftrightarrow> \<not> no_fault (Suc 0) (advance e d)"
  by (simp add: no_fault_1)

lemma no_fault_2: "no_fault 2 d \<longleftrightarrow> \<not> raises d \<and> \<not> raises (advance e d)"
  using no_fault_Suc [of "advance e d" d "Suc 0"]
  by (simp add: no_fault_1 advance_def numeral_2_eq_2)

lemma check_existing_plugin_reads:
  "\<exists>r d'. check_existing_plugin self u d = (Inr r, d') \<and>
     plugin_tbl d' = plugin_tbl d \<and> module_tbl d' = module_tbl d \<and>
     committed_plugin d' = committed_plugin d \<and> committed_module d' = committed_module d \<and>
     next_plugin_id d' = next_plugin_id d \<and> next_module_id d' = next_module_id d \<and>
     (\<exists>es. trace d' = trace d @ es \<and> list_all is_select es) \<and>
     (ex_exists r \<longrightarrow> (\<exists>row \<in> set (plugin_tbl d).
         matches u (pd_plugin_slug (plugin_data self)) row \<and> ex_plugin_id r = Some (p_id row)))"
  by (auto simp: check_existing_plugin_unfold advance_def fetchone_def not_found_def
        split: list.splits dest: filter_eq_ConsD)

lemma check_existing_plugin_fault:
  assumes "\<not> no_fault 2 d"
  shows "\<exists>d'. check_existing_plugin self u d =
           (Inr \<lparr>ex_exists = False, ex_plugin_id = None, ex_plugin_info = None,
                 ex_error = Some (str DatabaseError)\<rparr>, d') \<and>
         plugin_tbl d' = plugin_tbl d \<and> module_tbl d' = module_tbl d \<and>
         committed_plugin d' = committed_plugin d \<and> committed_module d' = committed_module d \<and>
         (\<exists>es. trace d' = trace d @ es \<and> list_all is_select es)"
  using assms no_fault_2 [of d "Done SelectCount"]
  by (auto simp: check_existing_plugin_unfold not_found_def advance_def)

text \<open>
  Claim C10. When the engine raises at one of the two queries of the lookup,
  \<^verbatim>\<open>_check_existing_plugin\<close> raises nothing itself: it returns the dictionary of a
  plugin that is not installed, with an \<^verbatim>\<open>error\<close> key added.
  \<^verbatim>\<open>get_plugin_status\<close> returns the same. \<^verbatim>\<open>_perform_user_uninstallation\<close>, and
  with it \<^verbatim>\<open>uninstall_for_user\<close> for an active user, then answers that the plugin was
  not found for the user, and no table has changed.
\<close>

theorem lookup_failure_reported_as_absent:
  assumes "\<not> no_fault 2 d"
  shows "(\<exists>d'. check_existing_plugin self user_id d =
            (Inr \<lparr>ex_exists = False, ex_plugin_id = None, ex_plugin_info = None,
                  ex_error = Some (str DatabaseError)\<rparr>, d') \<and>
          perform_user_uninstallation self user_id d =
            (Inr (failure ''Plugin not found for user''), d') \<and>
          (user_id \<in> active_users self \<longrightarrow>
             uninstall_for_user self user_id d =
               (Inr (failure ''Plugin not found for user''), self, d')) \<and>
          plugin_tbl d' = plugin_tbl d \<and> module_tbl d' = module_tbl d \<and>
          committed_plugin d' = committed_plugin d \<and> committed_module d' = committed_module d \<and>
          (\<exists>es. trace d' = trace d @ es \<and> list_all is_select es)) \<and>
         (\<exists>d'. get_plugin_status user_id d =
            (Inr \<lparr>ex_exists = False, ex_plugin_id = None, ex_plugin_info = None,
                  ex_error = Some (str DatabaseError)\<rparr>, d') \<and>
          plugin_tbl d' = plugin_tbl d \<and> module_tbl d' = module_tbl d)"
proof -
  from check_existing_plugin_fault [OF assms, of self user_id] obtain d' where
    c: "check_existing_plugin self user_id d =
           (Inr \<lparr>ex_exists = False, ex_plugin_id = None, ex_plugin_info = None,
                 ex_error = Some (str DatabaseError)\<rparr>, d')"
       "plugin_tbl d' = plugin_tbl d" "module_tbl d' = module_tbl d"
       "committed_plugin d' = committed_plugin d" "committed_module d' = committed_module d"
       "\<exists>es. trace d' = trace d @ es \<and> list_all is_select es"
    by blast
  have p: "perform_user_uninstallation self user_id d =
             (Inr (failure ''Plugin not found for user''), d')"
    using c(1) by (simp add: perform_user_uninstallation_def try_except_def bind_def ret_def)
  have u: "user_id \<in> active_users self \<Longrightarrow>
            uninstall_for_user self user_id d =
              (Inr (failure ''Plugin not found for user''), self, d')"
    using p by (simp add: uninstall_for_user_def failure_def)
  have g: "\<exists>d'. get_plugin_status user_id d =
            (Inr \<lparr>ex_exists = False, ex_plugin_id = None, ex_plugin_info = None,
                  ex_error = Some (str DatabaseError)\<rparr>, d') \<and>
          plugin_tbl d' = plugin_tbl d \<and> module_tbl d' = module_tbl d"
    using check_existing_plugin_fault [OF assms, of BrainDriveChatLifecycleManager user_id]
    by (auto simp: get_plugin_status_def)
  from c p u g show ?thesis by blast
qed

theorem lookup_failure_reported_as_absent_witness:
  "(\<exists>d'. check_existing_plugin BrainDriveChatLifecycleManager ''u1''
            ((empty_db [False, True])\<lparr>plugin_tbl :=
               [new_plugin_row 7 ''u1'' (plugin_data BrainDriveChatLifecycleManager)]\<rparr>) =
      (Inr \<lparr>ex_exists = False, ex_plugin_id = None, ex_plugin_info = None,
            ex_error = Some ''DatabaseError''\<rparr>, d') \<and>
      map p_id (plugin_tbl d') = [7])"
  using lookup_failure_reported_as_absent [of
    "(empty_db [False, True])\<lparr>plugin_tbl :=
       [new_plugin_row 7 ''u1'' (plugin_data BrainDriveChatLifecycleManager)]\<rparr>"
    BrainDriveChatLifecycleManager "''u1''"]
  by (auto simp: no_fault_def empty_db_def new_plugin_row_def)

subsection \<open>Uninstall\<close>

lemma uninstall_not_active:
  "user_id \<notin> active_users self \<Longrightarrow>
     uninstall_for_user self user_id d = (Inr (failure ''Plugin not installed for user''), self, d)"
  by (simp add: uninstall_for_user_def)

lemma perform_user_uninstallation_no_row:
  assumes "\<not> (\<exists>row \<in> set (plugin_tbl d). matches u (pd_plugin_slug (plugin_data self)) row)"
  shows "\<exists>d'. perform_user_uninstallation self u d =
           (Inr (failure ''Plugin not found for user''), d') \<and>
         plugin_tbl d' = plugin_tbl d \<and> module_tbl d' = module_tbl d \<and>
         committed_plugin d' = committed_plugin d \<and> committed_module d' = committed_module d \<and>
         (\<exists>es. trace d' = trace d @ es \<and> list_all is_select es)"
proof -
  from check_existing_plugin_reads [of self u d] assms obtain r d' where
    c: "check_existing_plugin self u d = (Inr r, d')" "\<not> ex_exists r"
       "plugin_tbl d' = plugin_tbl d" "module_tbl d' = module_tbl d"
       "committed_plugin d' = committed_plugin d" "committed_module d' = committed_module d"
       "\<exists>es. trace d' = trace d @ es \<and> list_all is_select es"
    by blast
  then show ?thesis
    by (simp add: perform_user_uninstallation_def try_except_def bind_def ret_def)
qed

text \<open>
  Claim C2. A user for whom the plugin is not installed is a user who is not among the
  manager's active users, or for whom the plugin table holds no row. For such a user
  \<^verbatim>\<open>uninstall_for_user\<close> returns a failure with an error message, the manager is
  unchanged, the tables of the session and the committed tables are unchanged, and every
  statement issued was a read. \<^verbatim>\<open>delete_plugin\<close> returns a failure and leaves the
  whole session as it was.
\<close>

theorem uninstall_not_installed:
  assumes "user_id \<notin> active_users self \<or>
           \<not> (\<exists>row \<in> set (plugin_tbl d). matches user_id (pd_plugin_slug (plugin_data self)) row)"
  shows "(\<exists>res d'. uninstall_for_user self user_id d = (Inr res, self, d') \<and>
            \<not> success res \<and> error res \<noteq> None \<and>
            plugin_tbl d' = plugin_tbl d \<and> module_tbl d' = module_tbl d \<and>
            committed_plugin d' = committed_plugin d \<and> committed_module d' = committed_module d \<and>
            (\<exists>es. trace d' = trace d @ es \<and> list_all is_select es)) \<and>
         (\<exists>res. delete_plugin user_id d = (Inr res, d) \<and> \<not> success res \<and> error res \<noteq> None)"
proof -
  have 2: "\<exists>res. delete_plugin user_id d = (Inr res, d) \<and> \<not> success res \<and> error res \<noteq> None"
    by (simp add: delete_plugin_def uninstall_for_user_def BrainDriveChatLifecycleManager_def
          failure_def)
  show ?thesis
  proof (cases "user_id \<in> active_users self")
    case False
    then show ?thesis using 2 by (simp add: uninstall_not_active failure_def)
  next
    case True
    with assms have
      "\<not> (\<exists>row \<in> set (plugin_tbl d). matches user_id (pd_plugin_slug (plugin_data self)) row)"
      by simp
    from perform_user_uninstallation_no_row [OF this] True 2 show ?thesis
      by (auto simp: uninstall_for_user_def failure_def)
  qed
qed


theorem uninstall_not_installed_witness:
  "(\<exists>res d'. uninstall_for_user (BrainDriveChatLifecycleManager\<lparr>active_users := {''u1''}\<rparr>)
               ''u1'' (empty_db []) =
      (Inr res, BrainDriveChatLifecycleManager\<lparr>active_users := {''u1''}\<rparr>, d') \<and>
      \<not> success res \<and> plugin_tbl d' = [] \<and> module_tbl d' = []) \<and>
   (\<exists>res. delete_plugin ''u1'' (empty_db []) = (Inr res, empty_db []) \<and> \<not> success res)"
  using uninstall_not_installed [of "''u1''" "BrainDriveChatLifecycleManager\<lparr>active_users := {''u1''}\<rparr>"
          "empty_db []"]
  by (auto simp: empty_db_def)



subsection \<open>Install\<close>

lemmas record_store_defs = create_database_records_unfold create_try_module create_try_class
  perform_user_installation_def check_existing_plugin_def select_count_def select_plugin_def
  try_except_def bind_def ret_def raise_def getitem_def insert_plugin_def insert_module_def
  commit_def execute_def raises_def advance_def new_module_row_def new_plugin_row_def
  empty_db_def BrainDriveChatLifecycleManager_def failure_def fetchone_def matches_def

lemma perform_user_installation_class:
  "perform_user_installation DatetimeClass self u d =
     (if raises d
      then (Inr (failure (str DatabaseError)), advance (Raised Rollback) d)
      else (Inr (failure (str AttributeError)),
            (advance (Done Rollback) d)
              \<lparr>plugin_tbl := committed_plugin d, module_tbl := committed_module d\<rparr>))"
  by (simp add: perform_user_installation_def create_database_records_class try_except_def
        bind_def ret_def failure_def)

lemma install_for_user_guard:
  "user_id \<in> active_users self \<Longrightarrow>
     install_for_user self user_id d =
       (Inr (failure ''Plugin already installed for user''), self, d)"
  by (simp add: install_for_user_def)

lemma install_for_user_fails:
  "\<exists>res d' es. install_for_user self user_id d = (Inr res, self, d') \<and>
      \<not> success res \<and> error res \<noteq> None \<and>
      committed_plugin d' = committed_plugin d \<and> committed_module d' = committed_module d \<and>
      (plugin_tbl d' = plugin_tbl d \<or> plugin_tbl d' = committed_plugin d) \<and>
      trace d' = trace d @ es \<and> (\<forall>x \<in> set es. x = Done Rollback \<or> x = Raised Rollback)"
  by (simp add: install_for_user_def perform_user_installation_class failure_def advance_def)

text \<open>
  Claim C1. The install of the repository is \<^verbatim>\<open>install_for_user\<close> of the minimal base
  class, which \<^verbatim>\<open>install_plugin\<close> calls on a new manager. For a user among the
  manager's active users the guard returns the failure at once. For any other user, with
  or without a row in the plugin table, \<^verbatim>\<open>_create_database_records\<close> raises at line
  552 before its first INSERT, rolls back and returns a failure (and if the rollback
  raises, \<^verbatim>\<open>_perform_user_installation\<close> turns that into a failure). So for every
  user, and with that for every user for whom the plugin is already installed, the call
  returns a failure, the manager is unchanged, no statement other than the rollback is
  issued, the committed tables are unchanged and the session sees its tables as before or
  as committed; and when at most one plugin record per user and slug holds before the
  call, it holds after it.
\<close>

theorem install_inserts_no_second_record:
  "(\<exists>res d' es. install_for_user self user_id d = (Inr res, self, d') \<and>
      \<not> success res \<and> error res \<noteq> None \<and>
      committed_plugin d' = committed_plugin d \<and> committed_module d' = committed_module d \<and>
      (plugin_tbl d' = plugin_tbl d \<or> plugin_tbl d' = committed_plugin d) \<and>
      trace d' = trace d @ es \<and> (\<forall>x \<in> set es. x = Done Rollback \<or> x = Raised Rollback) \<and>
      (at_most_one (plugin_tbl d) \<and> at_most_one (committed_plugin d) \<longrightarrow>
         at_most_one (plugin_tbl d') \<and> at_most_one (committed_plugin d'))) \<and>
   (\<exists>res d' es. install_plugin user_id d = (Inr res, d') \<and>
      \<not> success res \<and> error res \<noteq> None \<and>
      committed_plugin d' = committed_plugin d \<and> committed_module d' = committed_module d \<and>
      (plugin_tbl d' = plugin_tbl d \<or> plugin_tbl d' = committed_plugin d) \<and>
      trace d' = trace d @ es \<and> (\<forall>x \<in> set es. x = Done Rollback \<or> x = Raised Rollback) \<and>
      (at_most_one (plugin_tbl d) \<and> at_most_one (committed_plugin d) \<longrightarrow>
         at_most_one (plugin_tbl d') \<and> at_most_one (committed_plugin d')))"
proof
  from install_for_user_fails [of self user_id d] obtain res d' es where
    a: "install_for_user self user_id d = (Inr res, self, d')"
       "\<not> success res" "error res \<noteq> None"
       "committed_plugin d' = committed_plugin d" "committed_module d' = committed_module d"
       "plugin_tbl d' = plugin_tbl d \<or> plugin_tbl d' = committed_plugin d"
       "trace d' = trace d @ es" "\<forall>x \<in> set es. x = Done Rollback \<or> x = Raised Rollback"
    by blast
  then have "at_most_one (plugin_tbl d) \<and> at_most_one (committed_plugin d) \<longrightarrow>
         at_most_one (plugin_tbl d') \<and> at_most_one (committed_plugin d')"
    by auto
  with a show "\<exists>res d' es. install_for_user self user_id d = (Inr res, self, d') \<and>
      \<not> success res \<and> error res \<noteq> None \<and>
      committed_plugin d' = committed_plugin d \<and> committed_module d' = committed_module d \<and>
      (plugin_tbl d' = plugin_tbl d \<or> plugin_tbl d' = committed_plugin d) \<and>
      trace d' = trace d @ es \<and> (\<forall>x \<in> set es. x = Done Rollback \<or> x = Raised Rollback) \<and>
      (at_most_one (plugin_tbl d) \<and> at_most_one (committed_plugin d) \<longrightarrow>
         at_most_one (plugin_tbl d') \<and> at_most_one (committed_plugin d'))"
    by blast
next
  from install_for_user_fails [of BrainDriveChatLifecycleManager user_id d] obtain res d' es where
    a: "install_for_user BrainDriveChatLifecycleManager user_id d =
          (Inr res, BrainDriveChatLifecycleManager, d')"
       "\<not> success res" "error res \<noteq> None"
       "committed_plugin d' = committed_plugin d" "committed_module d' = committed_module d"
       "plugin_tbl d' = plugin_tbl d \<or> plugin_tbl d' = committed_plugin d"
       "trace d' = trace d @ es" "\<forall>x \<in> set es. x = Done Rollback \<or> x = Raised Rollback"
    by blast
  then have "at_most_one (plugin_tbl d) \<and> at_most_one (committed_plugin d) \<longrightarrow>
         at_most_one (plugin_tbl d') \<and> at_most_one (committed_plugin d')"
    by auto
  moreover have "install_plugin user_id d = (Inr res, d')"
    using a(1) by (simp add: install_plugin_def)
  ultimately show "\<exists>res d' es. install_plugin user_id d = (Inr res, d') \<and>
      \<not> success res \<and> error res \<noteq> None \<and>
      committed_plugin d' = committed_plugin d \<and> committed_module d' = committed_module d \<and>
      (plugin_tbl d' = plugin_tbl d \<or> plugin_tbl d' = committed_plugin d) \<and>
      trace d' = trace d @ es \<and> (\<forall>x \<in> set es. x = Done Rollback \<or> x = Raised Rollback) \<and>
      (at_most_one (plugin_tbl d) \<and> at_most_one (committed_plugin d) \<longrightarrow>
         at_most_one (plugin_tbl d') \<and> at_most_one (committed_plugin d'))"
    using a by blast
qed

theorem install_inserts_no_second_record_witness:
  "\<exists>res d'. install_plugin ''u1''
      ((empty_db [])\<lparr>plugin_tbl := [new_plugin_row 7 ''u1'' (plugin_data BrainDriveChatLifecycleManager)],
                     committed_plugin :=
                       [new_plugin_row 7 ''u1'' (plugin_data BrainDriveChatLifecycleManager)]\<rparr>) =
      (Inr res, d') \<and> \<not> success res \<and>
      map p_id (plugin_tbl d') = [7] \<and> map p_id (committed_plugin d') = [7] \<and>
      at_most_one (plugin_tbl d') \<and> at_most_one (committed_plugin d')"
  using install_inserts_no_second_record [of BrainDriveChatLifecycleManager "''u1''"
      "(empty_db [])\<lparr>plugin_tbl := [new_plugin_row 7 ''u1'' (plugin_data BrainDriveChatLifecycleManager)],
                     committed_plugin :=
                       [new_plugin_row 7 ''u1'' (plugin_data BrainDriveChatLifecycleManager)]\<rparr>"]
  by (auto simp: empty_db_def at_most_one_def new_plugin_row_def)

lemma perform_user_installation_success:
  assumes "perform_user_installation b self u d = (r, d')"
  shows "\<exists>res. r = Inr res \<and>
     (success res \<longrightarrow>
        b = DatetimeModule \<and> plugin_id res = Some (next_plugin_id d) \<and>
        plugin_tbl d' = plugin_tbl d @ [new_plugin_row (next_plugin_id d) u (plugin_data self)] \<and>
        committed_plugin d' = plugin_tbl d' \<and>
        faults d' = drop (length (module_data self) + 2) (faults d))"
proof (cases b)
  case DatetimeClass
  with assms show ?thesis
    by (auto simp: perform_user_installation_class failure_def split: if_splits)
next
  case DatetimeModule
  show ?thesis
  proof (cases "create_database_records_try DatetimeModule self u d")
    case (Pair x d1)
    show ?thesis
    proof (cases x)
      case (Inl e)
      with Pair assms DatetimeModule show ?thesis
        by (auto simp: perform_user_installation_def try_except_def bind_def ret_def
              create_database_records_unfold failure_def split: if_splits)
    next
      case (Inr res)
      with Pair have t: "create_database_records_try DatetimeModule self u d = (Inr res, d1)"
        by simp
      from create_try_Inr [OF t] t assms DatetimeModule show ?thesis
        by (auto simp: perform_user_installation_def try_except_def bind_def ret_def
              create_database_records_unfold getitem_def)
    qed
  qed
qed

text \<open>
  Claim C9 does not hold as it stands: after a successful
  \<^verbatim>\<open>_perform_user_installation\<close> (with \<^verbatim>\<open>datetime\<close> bound to the module, the only
  binding under which it succeeds) the engine may raise during the lookup, and the lookup
  then reports that the plugin does not exist.
\<close>

theorem lookup_after_install_counterexample:
  "install_then_lookup DatetimeModule BrainDriveChatLifecycleManager ''u1''
     (empty_db [False, False, False, True]) =
     (Inr \<lparr>success = True, error = None, plugin_id = Some 1,
           plugin_slug = Some ''BrainDriveChat'', plugin_name = Some ''BrainDriveChat'',
           modules_created = Some [\<lparr>ref_id = 1, ref_name = ''BrainDriveChat'',
                                    ref_display_name = Some ''AI Chat Interface''\<rparr>],
           deleted_modules = None\<rparr>,
      Inr \<lparr>ex_exists = False, ex_plugin_id = None, ex_plugin_info = None,
           ex_error = Some ''DatabaseError''\<rparr>)"
  by (simp add: install_then_lookup_def record_store_defs)

text \<open>
  Claim C9, amended. Let the plugin table hold no row for the user and the manager's
  slug, let \<^verbatim>\<open>_perform_user_installation\<close> report success, and let the engine raise
  at neither of the two queries of the lookup that follows. Then
  \<^verbatim>\<open>_check_existing_plugin\<close> reports that the plugin exists, without an error, and the
  identifier it returns is the identifier in the result of the install.
\<close>

theorem lookup_after_install:
  assumes "perform_user_installation b self user_id d = (Inr res, d')"
    and "success res"
    and "\<not> (\<exists>row \<in> set (plugin_tbl d). matches user_id (pd_plugin_slug (plugin_data self)) row)"
    and "no_fault 2 d'"
  shows "\<exists>pid row d''. plugin_id res = Some pid \<and>
           check_existing_plugin self user_id d' =
             (Inr \<lparr>ex_exists = True, ex_plugin_id = Some pid, ex_plugin_info = Some row,
                   ex_error = None\<rparr>, d'') \<and>
           p_id row = pid \<and> p_user_id row = user_id"
proof -
  from perform_user_installation_success [OF assms(1)] assms(2) have
    f: "plugin_id res = Some (next_plugin_id d)"
       "plugin_tbl d' =
          plugin_tbl d @ [new_plugin_row (next_plugin_id d) user_id (plugin_data self)]"
    by auto
  from assms(3) have
    "filter (matches user_id (pd_plugin_slug (plugin_data self))) (plugin_tbl d) = []"
    by (auto simp: filter_empty_conv)
  with f have "filter (matches user_id (pd_plugin_slug (plugin_data self))) (plugin_tbl d') =
      [new_plugin_row (next_plugin_id d) user_id (plugin_data self)]"
    by (simp add: matches_def new_plugin_row_def)
  with assms(4) no_fault_2 [of d' "Done SelectCount"] f show ?thesis
    by (simp add: check_existing_plugin_unfold fetchone_def new_plugin_row_def)
qed

theorem lookup_after_install_witness:
  "\<exists>res d' row d''.
     perform_user_installation DatetimeModule BrainDriveChatLifecycleManager ''u1'' (empty_db []) =
       (Inr res, d') \<and>
     success res \<and> plugin_id res = Some 1 \<and>
     check_existing_plugin BrainDriveChatLifecycleManager ''u1'' d' =
       (Inr \<lparr>ex_exists = True, ex_plugin_id = Some 1, ex_plugin_info = Some row,
             ex_error = None\<rparr>, d'')"
proof -
  have "\<exists>res d'.
      perform_user_installation DatetimeModule BrainDriveChatLifecycleManager ''u1''
        (empty_db []) = (Inr res, d') \<and>
      success res \<and> plugin_id res = Some 1 \<and> faults d' = []"
    by (simp add: record_store_defs)
  then obtain res d' where
    r: "perform_user_installation DatetimeModule BrainDriveChatLifecycleManager ''u1''
          (empty_db []) = (Inr res, d')"
       "success res" "plugin_id res = Some 1" "faults d' = []"
    by blast
  have "no_fault 2 d'" using r(4) by (simp add: no_fault_def)
  from lookup_after_install [OF r(1) r(2) _ this] r show ?thesis
    by (auto simp: empty_db_def)
qed


section \<open>Properties of the installation validator\<close>

lemma validate_installation_impl_returns:
  "\<exists>v. validate_installation_impl user_id plugin_dir = Inr v"
  by (simp add: validate_installation_impl_def split: sum.splits)

lemma check_fields_required:
  "check_fields j required_fields =
     (case py_in ''name'' j of
        Inl e \<Rightarrow> Inl e
      | Inr False \<Rightarrow> Inr (Some (invalid ''BrainDriveChat: package.json missing required field: name''))
      | Inr True \<Rightarrow>
         (case py_in ''version'' j of
            Inl e \<Rightarrow> Inl e
          | Inr False \<Rightarrow> Inr (Some (invalid ''BrainDriveChat: package.json missing required field: version''))
          | Inr True \<Rightarrow> Inr None))"
  by (simp add: required_fields_def split: sum.splits bool.splits)

lemma check_package_json_None:
  "check_package_json t = Inr None \<longleftrightarrow>
     (\<exists>j. json_load t [''package.json''] = Inr j \<and>
          py_in ''name'' j = Inr True \<and> py_in ''version'' j = Inr True)"
  by (auto simp: check_package_json_def check_fields_required invalid_def
        split: sum.splits bool.splits if_splits)

lemma check_package_json_Some_invalid:
  "check_package_json t = Inr (Some v) \<Longrightarrow> \<not> valid v"
  by (auto simp: check_package_json_def check_fields_required invalid_def
        split: sum.splits bool.splits if_splits)

lemma missing_files_empty:
  "filter (\<lambda>file_path. \<not> path_exists t file_path) required_files = [] \<longleftrightarrow>
     path_exists t [''package.json''] \<and> path_exists t [''dist'', ''remoteEntry.js'']"
  by (auto simp: required_files_def)

lemma validate_valid_iff:
  "validate_installation_impl user_id t = Inr v \<Longrightarrow>
   valid v \<longleftrightarrow>
     path_exists t [''package.json''] \<and> path_exists t [''dist'', ''remoteEntry.js''] \<and>
     (\<exists>j. json_load t [''package.json''] = Inr j \<and>
          py_in ''name'' j = Inr True \<and> py_in ''version'' j = Inr True) \<and>
     (\<exists>n. st_size t [''dist'', ''remoteEntry.js''] = Inr n \<and> 0 < n)"
proof -
  assume a: "validate_installation_impl user_id t = Inr v"
  show ?thesis
  proof (cases "path_exists t [''package.json''] \<and> path_exists t [''dist'', ''remoteEntry.js'']")
    case False
    with a show ?thesis
      using missing_files_empty [of t]
      by (auto simp: validate_installation_impl_def validate_installation_try_def Let_def invalid_def)
  next
    case True
    then have m: "filter (\<lambda>file_path. \<not> path_exists t file_path) required_files = []"
      by (simp add: missing_files_empty)
    show ?thesis
    proof (cases "check_package_json t")
      case (Inl e)
      with a m True check_package_json_None [of t] show ?thesis
        by (auto simp: validate_installation_impl_def validate_installation_try_def invalid_def)
    next
      case (Inr r)
      show ?thesis
      proof (cases r)
        case None
        with Inr a m True check_package_json_None [of t] show ?thesis
          by (auto simp: validate_installation_impl_def validate_installation_try_def invalid_def
                split: sum.splits if_splits)
      next
        case (Some w)
        with Inr a m True check_package_json_None [of t] check_package_json_Some_invalid [of t w]
        show ?thesis
          by (auto simp: validate_installation_impl_def validate_installation_try_def)
      qed
    qed
  qed
qed

lemma st_size_exists: "path_exists t p \<Longrightarrow> \<exists>n. st_size t p = Inr n"
  by (auto simp: path_exists_def st_size_def split: option.splits node.splits)

lemma json_load_exists: "json_load t p = Inr j \<Longrightarrow> path_exists t p"
  by (auto simp: path_exists_def json_load_def split: option.splits node.splits)

lemma is_dir_exists: "is_dir t p \<Longrightarrow> path_exists t p"
  by (auto simp: path_exists_def is_dir_def split: option.splits node.splits)

text \<open>
  The validator never raises. It reports invalid when the bundle is absent, when the bundle
  has size zero, when \<^verbatim>\<open>package.json\<close> cannot be loaded, and when it loads as an object
  that lacks one of the two keys; it reports valid for an object with both keys next to a
  bundle that is not empty.
\<close>

lemma validate_installation_rejects:
  assumes "validate_installation_impl user_id t = Inr v"
    and "\<not> path_exists t [''dist'', ''remoteEntry.js''] \<or>
         st_size t [''dist'', ''remoteEntry.js''] = Inr 0 \<or>
         (\<exists>e. json_load t [''package.json''] = Inl e) \<or>
         (\<exists>kvs. json_load t [''package.json''] = Inr (JObject kvs) \<and>
            (''name'' \<notin> fst ` set kvs \<or> ''version'' \<notin> fst ` set kvs))"
  shows "\<not> valid v"
  using assms validate_valid_iff [OF assms(1)] by auto

lemma validate_installation_accepts_object:
  assumes "path_exists t [''dist'', ''remoteEntry.js'']"
    and "st_size t [''dist'', ''remoteEntry.js''] = Inr n" and "0 < n"
    and "json_load t [''package.json''] = Inr (JObject kvs)"
    and "''name'' \<in> fst ` set kvs" and "''version'' \<in> fst ` set kvs"
  shows "validate_installation_impl user_id t = Inr \<lparr>valid = True, val_error = None\<rparr>"
proof -
  obtain v where v: "validate_installation_impl user_id t = Inr v"
    using validate_installation_impl_returns by blast
  have "path_exists t [''package.json'']" using assms(4) by (rule json_load_exists)
  with validate_valid_iff [OF v] assms have "valid v" by auto
  moreover have "valid v \<Longrightarrow> val_error v = None"
    using v by (auto simp: validate_installation_impl_def validate_installation_try_def Let_def
          invalid_def check_package_json_def check_fields_required
          split: sum.splits option.splits if_splits bool.splits)
  ultimately show ?thesis using v by simp
qed

lemma validate_installation_string_manifest:
  "validate_installation_impl ''u1''
     [([''package.json''], File 14 (Inr (JString ''name version''))),
      ([''dist''], Dir 4096),
      ([''dist'', ''remoteEntry.js''], File 10 (Inl JSONDecodeError))] =
   Inr \<lparr>valid = True, val_error = None\<rparr>"
  by (simp add: validate_installation_impl_def validate_installation_try_def required_files_def
        path_exists_def check_package_json_def json_load_def required_fields_def st_size_def
        startswith_def)

lemma validate_installation_object_manifest:
  "validate_installation_impl ''u1''
     [([''package.json''], File 40 (Inr (JObject [(''name'', JString ''x''), (''version'', JString ''1'')]))),
      ([''dist''], Dir 4096),
      ([''dist'', ''remoteEntry.js''], File 10 (Inl JSONDecodeError))] =
   Inr \<lparr>valid = True, val_error = None\<rparr>"
  "validate_installation_impl ''u1''
     [([''package.json''], File 40 (Inr (JObject [(''name'', JString ''x'')]))),
      ([''dist''], Dir 4096),
      ([''dist'', ''remoteEntry.js''], File 10 (Inl JSONDecodeError))] =
   Inr (invalid ''BrainDriveChat: package.json missing required field: version'')"
  "validate_installation_impl ''u1''
     [([''package.json''], File 40 (Inr (JObject [(''name'', JString ''x''), (''version'', JString ''1'')]))),
      ([''dist''], Dir 4096),
      ([''dist'', ''remoteEntry.js''], File 0 (Inl JSONDecodeError))] =
   Inr (invalid ''BrainDriveChat: Bundle file (remoteEntry.js) is empty'')"
  "validate_installation_impl ''u1''
     [([''package.json''], File 40 (Inr (JNumber 3)))] =
   Inr (invalid ''BrainDriveChat: Missing required files: dist/remoteEntry.js'')"
  by (simp_all add: validate_installation_impl_def validate_installation_try_def required_files_def
        path_exists_def check_package_json_def json_load_def required_fields_def st_size_def
        invalid_def)

text \<open>
  Claim C5, at the input where the code departs from it. \<^verbatim>\<open>package.json\<close> holds the
  JSON array \<^verbatim>\<open>["name", "version"]\<close>, so it has no field at all, and the bundle has
  ten bytes. \<^verbatim>\<open>json.load\<close> returns a list, \<^verbatim>\<open>field not in package_data\<close> tests
  membership in that list and is false for both names, and the validator answers valid.
\<close>

theorem validate_installation_array_manifest:
  "validate_installation_impl ''u1''
     [([''package.json''], File 19 (Inr (JArray [JString ''name'', JString ''version'']))),
      ([''dist''], Dir 4096),
      ([''dist'', ''remoteEntry.js''], File 10 (Inl JSONDecodeError))] =
   Inr \<lparr>valid = True, val_error = None\<rparr>"
  by (simp add: validate_installation_impl_def validate_installation_try_def required_files_def
        path_exists_def check_package_json_def json_load_def required_fields_def st_size_def)

section \<open>Properties of the health inspector\<close>

text \<open>
  Claim C6 does not hold as it stands: the inner handler catches
  \<^verbatim>\<open>json.JSONDecodeError\<close> only. A \<^verbatim>\<open>package.json\<close> that does not parse because
  its bytes are not text in the encoding of \<^verbatim>\<open>open\<close> raises \<^verbatim>\<open>UnicodeDecodeError\<close>,
  which reaches the outer handler: the report then holds no field
  \<^verbatim>\<open>package_json_valid\<close> at all, its details are the error alone, also when the
  bundle is there. The same happens when \<^verbatim>\<open>package.json\<close> is a directory.
\<close>

theorem get_plugin_health_report_counterexample:
  "get_plugin_health_impl ''u1''
     [([''package.json''], File 12 (Inl UnicodeDecodeError)),
      ([''dist''], Dir 4096),
      ([''dist'', ''remoteEntry.js''], File 10 (Inl JSONDecodeError))] =
     Inr \<lparr>healthy = False, details = Error ''UnicodeDecodeError''\<rparr> \<and>
   get_plugin_health_impl ''u1'' [([''package.json''], Dir 4096)] =
     Inr \<lparr>healthy = False, details = Error ''OSError''\<rparr>"
  by (simp add: get_plugin_health_impl_def get_plugin_health_try_def path_exists_def
        st_size_def json_load_def)

text \<open>
  Claim C6, amended. \<^verbatim>\<open>_get_plugin_health_impl\<close> is a function of the directory alone: it
  takes no database session and calls nothing that writes, so no file and no table can
  change. It never raises. \<^verbatim>\<open>healthy\<close> is true exactly when the bundle exists, its
  size is greater than zero and \<^verbatim>\<open>package.json\<close> loads as JSON. Unless
  \<^verbatim>\<open>package.json\<close> is there and reading it raises something other than a JSON decode
  error, the details are the five fields: a missing bundle gives \<^verbatim>\<open>bundle_exists\<close>
  false and size zero, a missing \<^verbatim>\<open>package.json\<close> or one that does not parse gives
  \<^verbatim>\<open>package_json_valid\<close> false, a missing assets directory gives
  \<^verbatim>\<open>assets_present\<close> false, and a source directory that is missing or holds no
  entry with Chat, Model or History in its name gives \<^verbatim>\<open>chat_components_present\<close>
  false. In the remaining case the report is not healthy and carries the error.
\<close>

theorem get_plugin_health_report:
  "\<exists>h. get_plugin_health_impl user_id t = Inr h \<and>
     (healthy h \<longleftrightarrow>
        path_exists t [''dist'', ''remoteEntry.js''] \<and>
        (\<exists>n. st_size t [''dist'', ''remoteEntry.js''] = Inr n \<and> 0 < n) \<and>
        (\<exists>j. json_load t [''package.json''] = Inr j)) \<and>
     (\<not> (path_exists t [''package.json''] \<and>
          (\<exists>e. json_load t [''package.json''] = Inl e \<and> e \<noteq> JSONDecodeError)) \<longrightarrow>
        details h = Info
          \<lparr>bundle_exists = path_exists t [''dist'', ''remoteEntry.js''],
           bundle_size = (case st_size t [''dist'', ''remoteEntry.js''] of
                            Inr n \<Rightarrow> n | Inl e \<Rightarrow> 0),
           package_json_valid = (case json_load t [''package.json''] of
                                   Inr j \<Rightarrow> True | Inl e \<Rightarrow> False),
           assets_present = is_dir t [''assets''],
           chat_components_present =
             (is_dir t [''src''] \<and>
              rglob t [''src''] ''Chat'' @ rglob t [''src''] ''Model''
                @ rglob t [''src''] ''History'' \<noteq> [])\<rparr>) \<and>
     (\<forall>e. path_exists t [''package.json''] \<and> json_load t [''package.json''] = Inl e \<and>
          e \<noteq> JSONDecodeError \<longrightarrow>
        h = \<lparr>healthy = False, details = Error (str e)\<rparr>)"
proof -
  let ?B = "[''dist'', ''remoteEntry.js'']" and ?P = "[''package.json'']"
  have nb: "\<not> path_exists t ?B \<Longrightarrow> st_size t ?B = Inl FileNotFoundError"
    by (simp add: path_exists_def st_size_def)
  have b: "(if path_exists t ?B
            then (case st_size t ?B of Inl e \<Rightarrow> Inl e | Inr n \<Rightarrow> Inr (True, n))
            else Inr (False, 0)) =
           Inr (path_exists t ?B, case st_size t ?B of Inr n \<Rightarrow> n | Inl e \<Rightarrow> 0)"
    using st_size_exists [of t ?B] nb by auto
  have a: "path_exists t [''assets''] \<and> is_dir t [''assets''] \<longleftrightarrow> is_dir t [''assets'']"
    using is_dir_exists by blast
  have c: "path_exists t [''src''] \<and> is_dir t [''src''] \<longleftrightarrow> is_dir t [''src'']"
    using is_dir_exists by blast
  show ?thesis
  proof (cases "json_load t ?P")
    case (Inr j)
    then have "path_exists t ?P" by (rule json_load_exists)
    with Inr show ?thesis
      using st_size_exists [of t ?B] nb
      by (cases "path_exists t ?B")
           (auto simp: get_plugin_health_impl_def get_plugin_health_try_def b a c Let_def)
  next
    case (Inl e)
    show ?thesis
    proof (cases "path_exists t ?P")
      case False
      with Inl show ?thesis
        using st_size_exists [of t ?B] nb
        by (cases "path_exists t ?B")
             (auto simp: get_plugin_health_impl_def get_plugin_health_try_def b a c Let_def)
    next
      case True
      with Inl show ?thesis
        using st_size_exists [of t ?B] nb
        by (cases "path_exists t ?B")
             (auto simp: get_plugin_health_impl_def get_plugin_health_try_def b a c Let_def)
    qed
  qed
qed


theorem get_plugin_health_report_witness:
  "get_plugin_health_impl ''u1'' [] =
     Inr \<lparr>healthy = False,
          details = Info \<lparr>bundle_exists = False, bundle_size = 0, package_json_valid = False,
                          assets_present = False, chat_components_present = False\<rparr>\<rparr> \<and>
   (\<exists>h. get_plugin_health_impl ''u1''
      [([''package.json''], File 40 (Inr (JObject [(''name'', JString ''x'')]))),
       ([''dist''], Dir 4096),
       ([''dist'', ''remoteEntry.js''], File 10 (Inl JSONDecodeError)),
       ([''src''], Dir 4096),
       ([''src'', ''BrainDriveChat.tsx''], File 100 (Inl JSONDecodeError))] = Inr h \<and>
      healthy h \<and>
      details h = Info \<lparr>bundle_exists = True, bundle_size = 10, package_json_valid = True,
                         assets_present = False, chat_components_present = True\<rparr>)"
  using get_plugin_health_report [of "''u1''" "[]"]
    get_plugin_health_report [of "''u1''"
      "[([''package.json''], File 40 (Inr (JObject [(''name'', JString ''x'')]))),
       ([''dist''], Dir 4096),
       ([''dist'', ''remoteEntry.js''], File 10 (Inl JSONDecodeError)),
       ([''src''], Dir 4096),
       ([''src'', ''BrainDriveChat.tsx''], File 100 (Inl JSONDecodeError))]"]
  by (auto simp: path_exists_def st_size_def json_load_def is_dir_def rglob_def name_def
        startswith_def)


section \<open>Properties of the file synchronizer\<close>

lemma should_copy_iff: "should_copy p \<longleftrightarrow> \<not> excluded p"
  by (simp add: should_copy_def excluded_def exclude_patterns_def)

lemma mkdir_cases:
  "mkdir p t = (r, t1) \<Longrightarrow>
     written t1 = written t \<and> warnings t1 = warnings t \<and>
     ((r = Inl OSError \<and> Suc (pending t1) = pending t) \<or> (r = Inr () \<and> pending t1 = pending t))"
  by (auto simp: mkdir_def os_call_def pending_def split: list.splits bool.splits)

lemma unlink_if_update_cases:
  "unlink_if_update u p t = (r, t1) \<Longrightarrow>
     written t1 = written t \<and> warnings t1 = warnings t \<and>
     ((r = Inl OSError \<and> Suc (pending t1) = pending t) \<or> (r = Inr () \<and> pending t1 = pending t))"
  by (auto simp: unlink_if_update_def unlink_def os_call_def pending_def
        split: list.splits bool.splits if_splits)

lemma copy2_cases:
  "copy2 p t = (r, t1) \<Longrightarrow>
     warnings t1 = warnings t \<and>
     ((r = Inl OSError \<and> written t1 = written t \<and> target t1 = target t \<and>
       Suc (pending t1) = pending t) \<or>
      (r = Inr () \<and> written t1 = written t @ [p] \<and> pending t1 = pending t \<and>
       (target t1 p = Some RegularFile \<or> target t1 p = Some Special \<or>
        (target t1 p = Some Directory \<and>
         (target t1 (p @ [name p]) = Some RegularFile \<or>
          target t1 (p @ [name p]) = Some Special)))))"
proof (cases "target t p = Some Directory")
  case True
  assume "copy2 p t = (r, t1)"
  with True show ?thesis
    by (auto simp: copy2_def copy2_dst_def os_call_def pending_def
          split: list.splits bool.splits if_splits)
next
  case False
  assume "copy2 p t = (r, t1)"
  with False show ?thesis
    by (auto simp: copy2_def copy2_dst_def os_call_def pending_def
          split: list.splits bool.splits if_splits)
qed

lemma copy_item_cases:
  assumes "copy_item u p k acc t = (r, t1)"
  shows "warnings t1 = warnings t \<and>
     ((r = Inl OSError \<and> written t1 = written t \<and> Suc (pending t1) = pending t) \<or>
      (r = Inr (acc @ [p]) \<and> k = RegularFile \<and> written t1 = written t @ [p] \<and>
       pending t1 = pending t) \<or>
      (r = Inr acc \<and> k \<noteq> RegularFile \<and> written t1 = written t \<and> pending t1 = pending t))"
proof (cases k)
  case RegularFile
  obtain r1 s1 where m: "mkdir (butlast p) t = (r1, s1)" by (cases "mkdir (butlast p) t") auto
  obtain r2 s2 where l: "unlink_if_update u p s1 = (r2, s2)"
    by (cases "unlink_if_update u p s1") auto
  obtain r3 s3 where c: "copy2 p s2 = (r3, s3)" by (cases "copy2 p s2") auto
  from mkdir_cases [OF m] unlink_if_update_cases [OF l] copy2_cases [OF c] assms m l c RegularFile
  show ?thesis
    by (auto simp: copy_item_def bind_def ret_def)
next
  case Directory
  obtain r1 s1 where m: "mkdir p t = (r1, s1)" by (cases "mkdir p t") auto
  from mkdir_cases [OF m] assms m Directory show ?thesis
    by (auto simp: copy_item_def bind_def ret_def)
next
  case Special
  with assms show ?thesis by (auto simp: copy_item_def ret_def)
qed


lemma copy_step_cases:
  "\<exists>c t1. try_except (copy_item u p k acc) (\<lambda>e. bind (warning p) (\<lambda>_. ret acc)) t = (Inr c, t1) \<and>
     ((c = acc @ [p] \<and> k = RegularFile \<and> written t1 = written t @ [p] \<and>
       warnings t1 = warnings t \<and> pending t1 = pending t) \<or>
      (c = acc \<and> k \<noteq> RegularFile \<and> written t1 = written t \<and>
       warnings t1 = warnings t \<and> pending t1 = pending t) \<or>
      (c = acc \<and> written t1 = written t \<and> warnings t1 = warnings t @ [p] \<and>
       Suc (pending t1) = pending t))"
proof -
  obtain r s where c: "copy_item u p k acc t = (r, s)" by (cases "copy_item u p k acc t") auto
  from copy_item_cases [OF c] c show ?thesis
    by (auto simp: try_except_def bind_def ret_def warning_def pending_def)
qed

lemma copy_items_inv:
  "\<exists>t1 ws wn. copy_items u src acc t = (Inr (acc @ ws), t1) \<and> loop_post src acc t t1 ws wn"
proof (induction src arbitrary: acc t)
  case Nil
  show ?case by (simp add: ret_def loop_post_def)
next
  case (Cons item src)
  obtain p k where item: "item = (p, k)" by (cases item) auto
  show ?case
  proof (cases "p = [''lifecycle_manager.py''] \<or> \<not> should_copy p")
    case True
    from Cons.IH [of acc t] obtain t1 ws wn where
      ih: "copy_items u src acc t = (Inr (acc @ ws), t1)" "loop_post src acc t t1 ws wn"
      by blast
    have "copy_items u (item # src) acc t = copy_items u src acc t"
      using True item by (auto simp: name_def)
    with ih True item have
      "copy_items u (item # src) acc t = (Inr (acc @ ws), t1) \<and>
       loop_post (item # src) acc t t1 ws wn"
      by (auto simp: loop_post_def)
    then show ?thesis by blast
  next
    case False
    from copy_step_cases [of u p k acc t] obtain c s where
      st: "try_except (copy_item u p k acc) (\<lambda>e. bind (warning p) (\<lambda>_. ret acc)) t = (Inr c, s)"
      and cs: "(c = acc @ [p] \<and> k = RegularFile \<and> written s = written t @ [p] \<and>
                warnings s = warnings t \<and> pending s = pending t) \<or>
               (c = acc \<and> k \<noteq> RegularFile \<and> written s = written t \<and>
                warnings s = warnings t \<and> pending s = pending t) \<or>
               (c = acc \<and> written s = written t \<and> warnings s = warnings t @ [p] \<and>
                Suc (pending s) = pending t)"
      by blast
    from Cons.IH [of c s] obtain t1 ws wn where
      ih: "copy_items u src c s = (Inr (c @ ws), t1)" "loop_post src c s t1 ws wn"
      by blast
    have run: "copy_items u (item # src) acc t = copy_items u src c s"
      using False item st by (simp add: bind_def)
    from cs show ?thesis
    proof (elim disjE conjE)
      assume "c = acc @ [p]" "k = RegularFile" "written s = written t @ [p]"
        "warnings s = warnings t" "pending s = pending t"
      with ih run False item have
        "copy_items u (item # src) acc t = (Inr (acc @ (p # ws)), t1) \<and>
         loop_post (item # src) acc t t1 (p # ws) wn"
        by (auto simp: loop_post_def)
      then show ?thesis by blast
    next
      assume "c = acc" "k \<noteq> RegularFile" "written s = written t"
        "warnings s = warnings t" "pending s = pending t"
      with ih run False item have
        "copy_items u (item # src) acc t = (Inr (acc @ ws), t1) \<and>
         loop_post (item # src) acc t t1 ws wn"
        by (auto simp: loop_post_def)
      then show ?thesis by blast
    next
      assume "c = acc" "written s = written t" "warnings s = warnings t @ [p]"
        "Suc (pending s) = pending t"
      with ih run False item have
        "copy_items u (item # src) acc t = (Inr (acc @ ws), t1) \<and>
         loop_post (item # src) acc t t1 ws (p # wn)"
        by (auto simp: loop_post_def)
      then show ?thesis by blast
    qed
  qed
qed


lemma copy_lifecycle_manager_cases:
  assumes "copy_lifecycle_manager u src c t = (r, t1)"
  shows "warnings t1 = warnings t \<and>
     ((r = Inr c \<and> [''lifecycle_manager.py''] \<notin> fst ` set src \<and> t1 = t) \<or>
      (r = Inr (c @ [ [''lifecycle_manager.py''] ]) \<and> [''lifecycle_manager.py''] \<in> fst ` set src \<and>
       written t1 = written t @ [ [''lifecycle_manager.py''] ] \<and>
       (target t1 [''lifecycle_manager.py''] = Some RegularFile \<or>
        target t1 [''lifecycle_manager.py''] = Some Special \<or>
        (target t1 [''lifecycle_manager.py''] = Some Directory \<and>
         (target t1 [''lifecycle_manager.py'', ''lifecycle_manager.py''] = Some RegularFile \<or>
          target t1 [''lifecycle_manager.py'', ''lifecycle_manager.py''] = Some Special))) \<and>
       pending t1 = pending t) \<or>
      (r = Inl OSError \<and> [''lifecycle_manager.py''] \<in> fst ` set src \<and>
       written t1 = written t \<and> Suc (pending t1) = pending t))"
proof (cases "[''lifecycle_manager.py''] \<in> fst ` set src")
  case False
  with assms show ?thesis by (auto simp: copy_lifecycle_manager_def ret_def)
next
  case True
  obtain r1 s1 where m: "mkdir [] t = (r1, s1)" by (cases "mkdir [] t") auto
  obtain r2 s2 where l: "unlink_if_update u [''lifecycle_manager.py''] s1 = (r2, s2)"
    by (cases "unlink_if_update u [''lifecycle_manager.py''] s1") auto
  obtain r3 s3 where c: "copy2 [''lifecycle_manager.py''] s2 = (r3, s3)"
    by (cases "copy2 [''lifecycle_manager.py''] s2") auto
  have n: "[''lifecycle_manager.py''] @ [name [''lifecycle_manager.py''] ] =
      [''lifecycle_manager.py'', ''lifecycle_manager.py'']"
    by (simp add: name_def)
  from mkdir_cases [OF m] unlink_if_update_cases [OF l] copy2_cases [OF c] assms m l c True
  show ?thesis
    unfolding n by (auto simp: copy_lifecycle_manager_def bind_def ret_def)
qed

lemma copy_plugin_files_impl_unfold:
  "copy_plugin_files_impl user src u t =
     (case copy_items u src [] t of
        (Inl e, t1) \<Rightarrow> (Inr \<lparr>cp_success = False, cp_copied_files = None,
                               cp_error = Some (str e)\<rparr>, t1)
      | (Inr copied, t1) \<Rightarrow>
          (case copy_lifecycle_manager u src copied t1 of
             (Inl e, t2) \<Rightarrow> (Inr \<lparr>cp_success = False, cp_copied_files = None,
                                    cp_error = Some (str e)\<rparr>, t2)
           | (Inr copied', t2) \<Rightarrow> (Inr \<lparr>cp_success = True, cp_copied_files = Some copied',
                                          cp_error = None\<rparr>, t2)))"
  by (simp add: copy_plugin_files_impl_def copy_plugin_files_try_def try_except_def bind_def
        ret_def split: prod.splits sum.splits)

lemma lifecycle_manager_not_excluded: "\<not> excluded [''lifecycle_manager.py'']"
  by (simp add: excluded_def exclude_patterns_def name_def endswith_def)

lemmas copy_defs = copy_plugin_files_impl_def copy_plugin_files_try_def copy_lifecycle_manager_def
  copy_item_def mkdir_def unlink_if_update_def unlink_def copy2_def copy2_dst_def warning_def
  os_call_def
  try_except_def bind_def ret_def should_copy_def exclude_patterns_def name_def endswith_def
  empty_target_def

text \<open>
  Claim C8. The loop over the source entries never raises, whatever calls of the
  operating system do: it ends with the list of the files it copied. Every regular file
  of the source that passes the exclusion test, other than the installer's own file, is
  in that list or among the paths warned about, so a failure at one entry does not stop
  the entries after it; and there are exactly as many warnings as calls that raised.
  The function itself never raises either. It reports success exactly when the final
  copy of the installer's own file does not raise, however many entries were skipped,
  with the list of copied files and no error; otherwise it reports failure with the
  error and without a list.
\<close>

theorem copy_failures_skipped:
  "\<exists>copied t1 wn res t'.
     copy_items update src [] t = (Inr copied, t1) \<and>
     written t1 = written t @ copied \<and> warnings t1 = warnings t @ wn \<and>
     length wn + length (filter (\<lambda>b. b) (os_faults t1)) = length (filter (\<lambda>b. b) (os_faults t)) \<and>
     (\<forall>p. (p, RegularFile) \<in> set src \<and> should_copy p \<and> p \<noteq> [''lifecycle_manager.py'']
         \<longrightarrow> p \<in> set copied \<or> p \<in> set wn) \<and>
     copy_plugin_files_impl user_id src update t = (Inr res, t') \<and>
     warnings t' = warnings t1 \<and>
     (cp_success res \<longleftrightarrow> (\<exists>c t2. copy_lifecycle_manager update src copied t1 = (Inr c, t2))) \<and>
     (cp_success res \<longrightarrow>
        cp_error res = None \<and>
        cp_copied_files res =
          Some (if [''lifecycle_manager.py''] \<in> fst ` set src
                then copied @ [ [''lifecycle_manager.py''] ] else copied)) \<and>
     (\<not> cp_success res \<longrightarrow>
        cp_copied_files res = None \<and> cp_error res = Some (str OSError) \<and>
        [''lifecycle_manager.py''] \<in> fst ` set src)"
proof -
  from copy_items_inv [of update src "[]" t] obtain t1 ws wn where
    l: "copy_items update src [] t = (Inr ws, t1)" "loop_post src [] t t1 ws wn"
    by auto
  obtain r t2 where f: "copy_lifecycle_manager update src ws t1 = (r, t2)"
    by (cases "copy_lifecycle_manager update src ws t1") auto
  from copy_lifecycle_manager_cases [OF f] l f show ?thesis
    by (auto simp: copy_plugin_files_impl_unfold loop_post_def pending_def)
qed

theorem copy_failures_skipped_witness:
  "\<exists>res t'.
     copy_plugin_files_impl ''u1''
       [([''a.txt''], RegularFile), ([''b.txt''], RegularFile),
        ([''lifecycle_manager.py''], RegularFile)]
       False (empty_target [False, True]) = (Inr res, t') \<and>
     cp_success res \<and>
     cp_copied_files res = Some [ [''b.txt''], [''lifecycle_manager.py''] ] \<and>
     warnings t' = [ [''a.txt''] ]"
  using copy_failures_skipped [of False
       "[([''a.txt''], RegularFile), ([''b.txt''], RegularFile),
        ([''lifecycle_manager.py''], RegularFile)]" "empty_target [False, True]" "''u1''"]
  by (simp add: copy_defs)

text \<open>
  Claim C7 does not hold as it stands: the copy of the installer's own file is outside the
  inner \<^verbatim>\<open>try\<close>, so when it raises the synchronizer returns a failure without a list
  of copied files, and the file is not in the target directory.
\<close>

theorem installer_copied_once_counterexample:
  "fst (copy_plugin_files_impl ''u1'' [([''lifecycle_manager.py''], RegularFile)] False
          (empty_target [False, True])) =
     Inr \<lparr>cp_success = False, cp_copied_files = None, cp_error = Some ''OSError''\<rparr> \<and>
   target (snd (copy_plugin_files_impl ''u1'' [([''lifecycle_manager.py''], RegularFile)] False
                  (empty_target [False, True]))) [''lifecycle_manager.py''] = None"
  by (simp add: copy_defs)

text \<open>
  Claim C7, amended. For every order of the source entries and whatever calls of the
  operating system do, no file is written whose relative path has a component in the
  exclusion set or whose name ends in \<^verbatim>\<open>.pyc\<close>. When the synchronizer reports
  success, the list of copied files is the list of the files written; and when the
  installer's own file is in the source directory as well, \<^verbatim>\<open>lifecycle_manager.py\<close>
  is in that list exactly once and is in the target directory: at the path
  \<^verbatim>\<open>lifecycle_manager.py\<close>, or, when that path is a directory at the time of the
  copy, inside that directory under the same name. What has been written is a regular
  file, unless a special file was at its place.
\<close>

theorem installer_copied_once:
  "\<exists>res t' ws.
     copy_plugin_files_impl user_id src update t = (Inr res, t') \<and>
     written t' = written t @ ws \<and>
     (\<forall>p \<in> set ws. (\<forall>part \<in> set p. part \<notin> set exclude_patterns) \<and>
                    \<not> endswith (name p) ''.pyc'') \<and>
     (cp_success res \<longrightarrow> cp_copied_files res = Some ws) \<and>
     (cp_success res \<and> [''lifecycle_manager.py''] \<in> fst ` set src \<longrightarrow>
        count_list ws [''lifecycle_manager.py''] = 1 \<and>
        (target t' [''lifecycle_manager.py''] = Some RegularFile \<or>
         target t' [''lifecycle_manager.py''] = Some Special \<or>
         (target t' [''lifecycle_manager.py''] = Some Directory \<and>
          (target t' [''lifecycle_manager.py'', ''lifecycle_manager.py''] = Some RegularFile \<or>
           target t' [''lifecycle_manager.py'', ''lifecycle_manager.py''] = Some Special))))"
proof -
  from copy_items_inv [of update src "[]" t] obtain t1 ws wn where
    l: "copy_items update src [] t = (Inr ws, t1)" "loop_post src [] t t1 ws wn"
    by auto
  then have nl: "[''lifecycle_manager.py''] \<notin> set ws" and
    ok: "\<forall>p \<in> set ws. \<not> excluded p"
    by (auto simp: loop_post_def should_copy_iff)
  obtain r t2 where f: "copy_lifecycle_manager update src ws t1 = (r, t2)"
    by (cases "copy_lifecycle_manager update src ws t1") auto
  from copy_lifecycle_manager_cases [OF f]
  consider (absent) "r = Inr ws" "[''lifecycle_manager.py''] \<notin> fst ` set src" "t2 = t1"
    | (copied) "r = Inr (ws @ [ [''lifecycle_manager.py''] ])"
        "[''lifecycle_manager.py''] \<in> fst ` set src"
        "written t2 = written t1 @ [ [''lifecycle_manager.py''] ]"
        "target t2 [''lifecycle_manager.py''] = Some RegularFile \<or>
         target t2 [''lifecycle_manager.py''] = Some Special \<or>
         (target t2 [''lifecycle_manager.py''] = Some Directory \<and>
          (target t2 [''lifecycle_manager.py'', ''lifecycle_manager.py''] = Some RegularFile \<or>
           target t2 [''lifecycle_manager.py'', ''lifecycle_manager.py''] = Some Special))"
    | (raised) "r = Inl OSError" "written t2 = written t1"
    by blast
  then show ?thesis
  proof cases
    case absent
    with l f ok have
      "copy_plugin_files_impl user_id src update t =
         (Inr \<lparr>cp_success = True, cp_copied_files = Some ws, cp_error = None\<rparr>, t1) \<and>
       written t1 = written t @ ws \<and>
       (\<forall>p \<in> set ws. (\<forall>part \<in> set p. part \<notin> set exclude_patterns) \<and>
                      \<not> endswith (name p) ''.pyc'')"
      by (auto simp: copy_plugin_files_impl_unfold loop_post_def excluded_def)
    with absent show ?thesis by auto
  next
    case copied
    let ?ws = "ws @ [ [''lifecycle_manager.py''] ]"
    have c1: "count_list ?ws [''lifecycle_manager.py''] = 1"
      using nl by (simp add: count_list_0_iff)
    have "\<forall>p \<in> set ?ws. \<not> excluded p"
      using ok lifecycle_manager_not_excluded by auto
    then have ex: "\<forall>p \<in> set ?ws. (\<forall>part \<in> set p. part \<notin> set exclude_patterns) \<and>
                      \<not> endswith (name p) ''.pyc''"
      by (auto simp: excluded_def)
    have run: "copy_plugin_files_impl user_id src update t =
         (Inr \<lparr>cp_success = True, cp_copied_files = Some ?ws, cp_error = None\<rparr>, t2)"
      and w: "written t2 = written t @ ?ws"
      using l f copied by (auto simp: copy_plugin_files_impl_unfold loop_post_def)
    let ?res = "\<lparr>cp_success = True, cp_copied_files = Some ?ws, cp_error = None\<rparr>"
    have "copy_plugin_files_impl user_id src update t = (Inr ?res, t2) \<and>
       written t2 = written t @ ?ws \<and>
       (\<forall>p \<in> set ?ws. (\<forall>part \<in> set p. part \<notin> set exclude_patterns) \<and>
                      \<not> endswith (name p) ''.pyc'') \<and>
       (cp_success ?res \<longrightarrow> cp_copied_files ?res = Some ?ws) \<and>
       (cp_success ?res \<and> [''lifecycle_manager.py''] \<in> fst ` set src \<longrightarrow>
          count_list ?ws [''lifecycle_manager.py''] = 1 \<and>
          (target t2 [''lifecycle_manager.py''] = Some RegularFile \<or>
           target t2 [''lifecycle_manager.py''] = Some Special \<or>
           (target t2 [''lifecycle_manager.py''] = Some Directory \<and>
            (target t2 [''lifecycle_manager.py'', ''lifecycle_manager.py''] = Some RegularFile \<or>
             target t2 [''lifecycle_manager.py'', ''lifecycle_manager.py''] = Some Special))))"
      using run w c1 ex copied(4) by simp
    then show ?thesis by blast
  next
    case raised
    with l f ok have
      "copy_plugin_files_impl user_id src update t =
         (Inr \<lparr>cp_success = False, cp_copied_files = None, cp_error = Some (str OSError)\<rparr>, t2) \<and>
       written t2 = written t @ ws \<and>
       (\<forall>p \<in> set ws. (\<forall>part \<in> set p. part \<notin> set exclude_patterns) \<and>
                      \<not> endswith (name p) ''.pyc'')"
      by (auto simp: copy_plugin_files_impl_unfold loop_post_def excluded_def)
    then show ?thesis by auto
  qed
qed

theorem installer_copied_once_witness:
  "(\<exists>res t'.
     copy_plugin_files_impl ''u1''
       [([''lifecycle_manager.py''], RegularFile), ([''node_modules'', ''x.js''], RegularFile),
        ([''a.pyc''], RegularFile), ([''src''], Directory), ([''src'', ''index.ts''], RegularFile)]
       False (empty_target []) = (Inr res, t') \<and>
     cp_copied_files res = Some [ [''src'', ''index.ts''], [''lifecycle_manager.py''] ] \<and>
     written t' = [ [''src'', ''index.ts''], [''lifecycle_manager.py''] ] \<and>
     target t' [''lifecycle_manager.py''] = Some RegularFile \<and>
     target t' [''node_modules'', ''x.js''] = None \<and> target t' [''a.pyc''] = None) \<and>
   (\<exists>res t'.
     copy_plugin_files_impl ''u1'' [([''lifecycle_manager.py''], RegularFile)] False
       ((empty_target [])\<lparr>target := (\<lambda>p. None)([''lifecycle_manager.py''] \<mapsto> Directory)\<rparr>) =
       (Inr res, t') \<and>
     cp_copied_files res = Some [ [''lifecycle_manager.py''] ] \<and>
     target t' [''lifecycle_manager.py''] = Some Directory \<and>
     target t' [''lifecycle_manager.py'', ''lifecycle_manager.py''] = Some RegularFile)"
  using installer_copied_once [of "''u1''"
       "[([''lifecycle_manager.py''], RegularFile), ([''node_modules'', ''x.js''], RegularFile),
        ([''a.pyc''], RegularFile), ([''src''], Directory), ([''src'', ''index.ts''], RegularFile)]"
       False "empty_target []"]
    installer_copied_once [of "''u1''" "[([''lifecycle_manager.py''], RegularFile)]" False
       "(empty_target [])\<lparr>target := (\<lambda>p. None)([''lifecycle_manager.py''] \<mapsto> Directory)\<rparr>"]
  by (simp add: copy_defs)

end
